theory Spec2Isabelle
  imports Main
begin

section \<open>CloudTrace backend (backend/server.js): values\<close>

text \<open>
  The server is asynchronous JavaScript talking to PostgreSQL through a connection pool.
  One request handler is modelled at a time, as a function from the state of the world to
  a result and the new state; every \<open>await\<close> is a step of that function. The pool, the
  driver and the store are not part of the sources: they are modelled as far as the
  handlers use them. Each of their operations either resolves or throws, as a fault
  schedule in the world says; an operation that throws leaves the store as it was.
  Time is counted in milliseconds; only a sleep advances the clock. Console output is
  left out.
\<close>

type_synonym instant = nat

text \<open>
  An exception thrown by the pool or by a query: the handlers read only its \<open>code\<close> and
  its \<open>message\<close>, either of which may be undefined (\<open>None\<close>).
\<close>

record js_error =
  code :: "string option"
  message :: "string option"

text \<open>JavaScript truthiness of a string that may be undefined: defined and not empty.\<close>

fun truthy :: "string option \<Rightarrow> bool" where
  "truthy None = False"
| "truthy (Some s) = (s \<noteq> [])"

text \<open>\<open>a || d\<close> for a string \<open>a\<close> that may be undefined and a string \<open>d\<close>.\<close>

fun or_else :: "string option \<Rightarrow> string \<Rightarrow> string" where
  "or_else None d = d"
| "or_else (Some s) d = (if s = [] then d else s)"

text \<open>\<open>String.prototype.startsWith\<close> and \<open>String.prototype.includes\<close>.\<close>

fun starts_with :: "string \<Rightarrow> string \<Rightarrow> bool" where
  "starts_with s [] = True"
| "starts_with [] (c # cs) = False"
| "starts_with (x # xs) (c # cs) = (x = c \<and> starts_with xs cs)"

fun includes_str :: "string \<Rightarrow> string \<Rightarrow> bool" where
  "includes_str [] t = (t = [])"
| "includes_str (x # xs) t = (starts_with (x # xs) t \<or> includes_str xs t)"

text \<open>One row of the table \<open>request_logs\<close> (db/schema.sql), without its serial key.\<close>

record log_row =
  request_id :: string
  server_hostname :: string
  timestamp :: instant
  client_ip :: string

datatype sql = BEGIN | INSERT log_row | COMMIT | ROLLBACK | SELECT1

text \<open>
  What the handler does to the outside, in order: a call of the gateway with its
  arguments, a \<open>dbPool.connect()\<close> and a \<open>client.query\<close> with what they threw
  (\<open>None\<close>: they resolved), a \<open>client.release()\<close>, a \<open>setTimeout\<close> sleep.
\<close>

datatype event =
    Call log_row
  | Connect "js_error option"
  | Query sql "js_error option"
  | Release
  | Sleep nat

text \<open>A client checked out of the pool, with the rows its open transaction has inserted.\<close>

record client =
  pending :: "log_row list"

text \<open>
  The world: \<open>script\<close> is the fault schedule, the outcome of each coming pool or client
  operation in order (an operation past its end resolves); \<open>committed\<close> the rows visible
  in the store; \<open>in_use\<close> the clients checked out of the pool and not released;
  \<open>uuid_source\<close> the values \<open>crypto.randomUUID()\<close> returns, call by call;
  \<open>SERVER_HOSTNAME\<close> the constant read from \<open>os.hostname()\<close> at startup.
\<close>

record world =
  script :: "js_error option list"
  committed :: "log_row list"
  in_use :: nat
  clock :: instant
  uuid_source :: "nat \<Rightarrow> string"
  uuid_drawn :: nat
  trace :: "event list"
  SERVER_HOSTNAME :: string

section \<open>The pool, the client and the store\<close>

definition next_outcome :: "world \<Rightarrow> js_error option \<times> world" where
  "next_outcome w =
     (case script w of
        [] \<Rightarrow> (None, w)
      | out # rest \<Rightarrow> (out, w\<lparr>script := rest\<rparr>))"

definition emit :: "event \<Rightarrow> world \<Rightarrow> world" where
  "emit ev w = w\<lparr>trace := trace w @ [ev]\<rparr>"

text \<open>\<open>await dbPool.connect()\<close>: throws, or checks a client out.\<close>

definition dbPool_connect :: "world \<Rightarrow> (js_error + client) \<times> world" where
  "dbPool_connect w =
     (case next_outcome w of
        (Some e, w') \<Rightarrow> (Inl e, emit (Connect (Some e)) w')
      | (None, w') \<Rightarrow>
          (Inr \<lparr>pending = []\<rparr>, emit (Connect None) (w'\<lparr>in_use := in_use w' + 1\<rparr>)))"

text \<open>
  The error PostgreSQL raises for the constraint \<open>request_id VARCHAR(36) NOT NULL UNIQUE\<close>
  of db/schema.sql.
\<close>

definition unique_violation :: js_error where
  "unique_violation =
     \<lparr>code = Some ''23505'',
      message = Some ''duplicate key value violates unique constraint''\<rparr>"

text \<open>
  \<open>await client.query(q)\<close>. A query the schedule fails throws and changes nothing in the
  store. Otherwise \<open>INSERT\<close> adds the row to the open transaction unless its
  \<open>request_id\<close> is taken, \<open>COMMIT\<close> makes the transaction's rows visible, \<open>ROLLBACK\<close>
  drops them.
\<close>

definition client_query :: "sql \<Rightarrow> client \<Rightarrow> world \<Rightarrow> (js_error + client) \<times> world" where
  "client_query q c w =
     (case next_outcome w of
        (Some e, w') \<Rightarrow> (Inl e, emit (Query q (Some e)) w')
      | (None, w') \<Rightarrow>
          (case q of
             BEGIN \<Rightarrow> (Inr (c\<lparr>pending := []\<rparr>), emit (Query q None) w')
           | INSERT r \<Rightarrow>
               (if request_id r \<in> set (map request_id (committed w' @ pending c))
                then (Inl unique_violation, emit (Query q (Some unique_violation)) w')
                else (Inr (c\<lparr>pending := pending c @ [r]\<rparr>), emit (Query q None) w'))
           | COMMIT \<Rightarrow>
               (Inr (c\<lparr>pending := []\<rparr>),
                emit (Query q None) (w'\<lparr>committed := committed w' @ pending c\<rparr>))
           | ROLLBACK \<Rightarrow> (Inr (c\<lparr>pending := []\<rparr>), emit (Query q None) w')
           | SELECT1 \<Rightarrow> (Inr c, emit (Query q None) w')))"

text \<open>\<open>client.release()\<close>: the client goes back to the pool; an open transaction's rows
  are never committed.\<close>

definition client_release :: "client \<Rightarrow> world \<Rightarrow> world" where
  "client_release c w = emit Release (w\<lparr>in_use := in_use w - 1\<rparr>)"

text \<open>\<open>await new Promise(resolve => setTimeout(resolve, delay))\<close>.\<close>

definition sleep :: "nat \<Rightarrow> world \<Rightarrow> world" where
  "sleep delay w = emit (Sleep delay) (w\<lparr>clock := clock w + delay\<rparr>)"

text \<open>\<open>crypto.randomUUID()\<close>: the next value of the random source.\<close>

definition generateRequestId :: "world \<Rightarrow> string \<times> world" where
  "generateRequestId w = (uuid_source w (uuid_drawn w), w\<lparr>uuid_drawn := uuid_drawn w + 1\<rparr>)"

section \<open>writeRequestToDatabase\<close>

text \<open>The object the gateway returns: \<open>{ success, error, message }\<close>.\<close>

record db_result =
  success :: bool
  error :: "string option"
  result_message :: "string option"

definition backoffMs :: "nat list" where
  "backoffMs = [100, 200, 400]"

text \<open>\<open>backoffMs[attempt] || 400\<close>: an index out of range reads undefined.\<close>

definition backoff_delay :: "nat \<Rightarrow> nat" where
  "backoff_delay attempt =
     (if attempt < length backoffMs \<and> backoffMs ! attempt \<noteq> 0
      then backoffMs ! attempt else 400)"

definition isDuplicateKey :: "js_error \<Rightarrow> bool" where
  "isDuplicateKey e =
     (code e = Some ''23505'' \<or>
      (case message e of
         None \<Rightarrow> False
       | Some m \<Rightarrow> m \<noteq> [] \<and> includes_str m ''duplicate key''))"

definition isTransientError :: "js_error \<Rightarrow> bool" where
  "isTransientError e =
     (code e = Some ''ECONNRESET'' \<or>
      code e = Some ''ETIMEDOUT'' \<or>
      code e = Some ''ECONNREFUSED'' \<or>
      code e = Some ''57P01'' \<or>
      code e = Some ''57P02'' \<or>
      code e = Some ''57P03'' \<or>
      code e = Some ''08003'' \<or>
      code e = Some ''08006'' \<or>
      code e = Some ''08001'' \<or>
      code e = Some ''08004'' \<or>
      code e = Some ''08007'')"

definition success_result :: db_result where
  "success_result = \<lparr>success = True, error = None, result_message = None\<rparr>"

definition collision_result :: db_result where
  "collision_result =
     \<lparr>success = False, error = Some ''UUID_COLLISION'',
      result_message = Some ''Request ID collision detected - extremely rare event''\<rparr>"

text \<open>\<open>{ success: false, error: error.code || 'UNKNOWN', message: error.message }\<close>.\<close>

definition failure_result :: "js_error \<Rightarrow> db_result" where
  "failure_result e =
     \<lparr>success = False, error = Some (or_else (code e) ''UNKNOWN''),
      result_message = message e\<rparr>"

definition max_retries_result :: db_result where
  "max_retries_result =
     \<lparr>success = False, error = Some ''MAX_RETRIES'',
      result_message = Some ''Maximum retries exceeded''\<rparr>"

text \<open>
  The \<open>try\<close> block of one attempt: connect, \<open>BEGIN\<close>, \<open>INSERT\<close>, \<open>COMMIT\<close>, release.
  It gives the error thrown, if any, and the value of the variable \<open>client\<close> then
  (\<open>None\<close>: still null).
\<close>

definition attempt_try :: "log_row \<Rightarrow> world \<Rightarrow> (js_error option \<times> client option) \<times> world" where
  "attempt_try r w =
     (case dbPool_connect w of
        (Inl e, w1) \<Rightarrow> ((Some e, None), w1)
      | (Inr c1, w1) \<Rightarrow>
          (case client_query BEGIN c1 w1 of
             (Inl e, w2) \<Rightarrow> ((Some e, Some c1), w2)
           | (Inr c2, w2) \<Rightarrow>
               (case client_query (INSERT r) c2 w2 of
                  (Inl e, w3) \<Rightarrow> ((Some e, Some c2), w3)
                | (Inr c3, w3) \<Rightarrow>
                    (case client_query COMMIT c3 w3 of
                       (Inl e, w4) \<Rightarrow> ((Some e, Some c3), w4)
                     | (Inr c4, w4) \<Rightarrow> ((None, Some c4), client_release c4 w4)))))"

text \<open>
  The start of the \<open>catch\<close> block: with a client, \<open>ROLLBACK\<close> (its own error is logged
  and dropped), then release.
\<close>

definition attempt_cleanup :: "client option \<Rightarrow> world \<Rightarrow> world" where
  "attempt_cleanup cl w =
     (case cl of
        None \<Rightarrow> w
      | Some c \<Rightarrow>
          (case client_query ROLLBACK c w of
             (Inl rollbackError, w') \<Rightarrow> client_release c w'
           | (Inr c', w') \<Rightarrow> client_release c' w'))"

text \<open>The loop \<open>for (let attempt = 0; attempt < retries; attempt++)\<close>, from \<open>attempt\<close> on.\<close>

function writeRequestToDatabase_loop ::
  "log_row \<Rightarrow> nat \<Rightarrow> nat \<Rightarrow> world \<Rightarrow> db_result \<times> world" where
  "writeRequestToDatabase_loop r retries attempt w =
     (if attempt < retries then
        (case attempt_try r w of
           ((None, cl), w1) \<Rightarrow> (success_result, w1)
         | ((Some e, cl), w1) \<Rightarrow>
             (let w2 = attempt_cleanup cl w1 in
              if isDuplicateKey e then (collision_result, w2)
              else if isTransientError e \<and> attempt < retries - 1 then
                writeRequestToDatabase_loop r retries (attempt + 1)
                  (sleep (backoff_delay attempt) w2)
              else (failure_result e, w2)))
      else (max_retries_result, w))"
  by pat_completeness auto
termination
  by (relation "measure (\<lambda>(r, retries, attempt, w). retries - attempt)") auto

declare writeRequestToDatabase_loop.simps [simp del]

text \<open>
  The values bound to \<open>$1, $2, $3, $4\<close> of the \<open>INSERT\<close>: the row it writes.
  \<open>writeRequestToDatabase(requestId, serverHostname, timestamp, clientIp, retries = 3)\<close>;
  \<open>writeRequestToDatabase\<close> is the call without the last argument, the only one the
  server makes.
\<close>

definition insert_params :: "string \<Rightarrow> string \<Rightarrow> instant \<Rightarrow> string \<Rightarrow> log_row" where
  "insert_params requestId serverHostname ts clientIp =
     \<lparr>request_id = requestId, server_hostname = serverHostname,
      timestamp = ts, client_ip = clientIp\<rparr>"

definition writeRequestToDatabase_retries ::
  "string \<Rightarrow> string \<Rightarrow> instant \<Rightarrow> string \<Rightarrow> nat \<Rightarrow> world \<Rightarrow> db_result \<times> world" where
  "writeRequestToDatabase_retries requestId serverHostname ts clientIp retries w =
     (let r = insert_params requestId serverHostname ts clientIp
      in writeRequestToDatabase_loop r retries 0 (emit (Call r) w))"

definition writeRequestToDatabase ::
  "string \<Rightarrow> string \<Rightarrow> instant \<Rightarrow> string \<Rightarrow> world \<Rightarrow> db_result \<times> world" where
  "writeRequestToDatabase requestId serverHostname ts clientIp w =
     writeRequestToDatabase_retries requestId serverHostname ts clientIp 3 w"

section \<open>The request handlers\<close>

text \<open>
  What the handlers read of a request: the method, the path \<open>new URL(req.url, ...)\<close>
  parses (or the error the constructor throws), the header \<open>x-forwarded-for\<close> and
  \<open>req.connection.remoteAddress\<close>, each of which may be undefined.
\<close>

record request =
  req_method :: string
  url_pathname :: "js_error + string"
  x_forwarded_for :: "string option"
  remoteAddress :: "string option"

text \<open>
  A value of a response body: a string, or \<open>toISOString()\<close> of an instant (the
  rendering itself is not modelled).
\<close>

datatype json = JString string | JIsoDate instant

text \<open>A response: \<open>res.writeHead(statusCode, headers)\<close> and the object \<open>res.end\<close>
  serialises (\<open>None\<close>: \<open>res.end()\<close> without a body).\<close>

record response =
  statusCode :: nat
  headers :: "(string \<times> string) list"
  body :: "(string \<times> json) list option"

text \<open>\<open>...(dbResult.error && { db_error: dbResult.message || dbResult.error })\<close>.\<close>

definition db_error_field :: "db_result \<Rightarrow> (string \<times> json) list" where
  "db_error_field dbResult =
     (case error dbResult of
        None \<Rightarrow> []
      | Some err \<Rightarrow>
          (if err = [] then []
           else [(''db_error'', JString (or_else (result_message dbResult) err))]))"

text \<open>The object \<open>responseData\<close> of \<open>handleRequest\<close>.\<close>

definition responseData ::
  "string \<Rightarrow> string \<Rightarrow> instant \<Rightarrow> string \<Rightarrow> db_result \<Rightarrow> (string \<times> json) list" where
  "responseData requestId hostname ts clientIp dbResult =
     [(''request_id'', JString requestId),
      (''server_hostname'', JString hostname),
      (''timestamp'', JIsoDate ts),
      (''client_ip'', JString clientIp),
      (''db_status'', JString (if success dbResult then ''success'' else ''failed''))]
     @ db_error_field dbResult"

text \<open>
  \<open>handleRequest\<close>: the identifier, the client address, the timestamp, the write, one
  more write with a new identifier after a collision, the response.
\<close>

definition handleRequest :: "request \<Rightarrow> world \<Rightarrow> response \<times> world" where
  "handleRequest req w0 =
     (let (requestId, w1) = generateRequestId w0;
          clientIp = or_else (x_forwarded_for req) (or_else (remoteAddress req) ''unknown'');
          ts = clock w1;
          (dbResult, w2) = writeRequestToDatabase requestId (SERVER_HOSTNAME w1) ts clientIp w1;
          (requestId', dbResult', w3) =
            (if \<not> success dbResult \<and> error dbResult = Some ''UUID_COLLISION'' then
               (let (requestId2, w2a) = generateRequestId w2;
                    (dbResult2, w2b) =
                      writeRequestToDatabase requestId2 (SERVER_HOSTNAME w2a) ts clientIp w2a
                in (requestId2, dbResult2, w2b))
             else (requestId, dbResult, w2))
      in (\<lparr>statusCode = 200,
           headers =
             [(''Content-Type'', ''application/json''),
              (''Access-Control-Allow-Origin'', ''*''),
              (''Access-Control-Allow-Methods'', ''GET, POST, OPTIONS''),
              (''Access-Control-Allow-Headers'', ''Content-Type'')],
           body = Some (responseData requestId' (SERVER_HOSTNAME w3) ts clientIp dbResult')\<rparr>,
          w3))"

text \<open>
  The \<open>try\<close>/\<open>catch\<close> of \<open>handleHealthCheck\<close>: connect, \<open>SELECT 1\<close>, release; the
  \<open>catch\<close> block is empty. It gives \<open>dbHealthy\<close>.
\<close>

definition handleHealthCheck_try :: "world \<Rightarrow> bool \<times> world" where
  "handleHealthCheck_try w =
     (case dbPool_connect w of
        (Inl e, w1) \<Rightarrow> (False, w1)
      | (Inr c, w1) \<Rightarrow>
          (case client_query SELECT1 c w1 of
             (Inl e, w2) \<Rightarrow> (False, w2)
           | (Inr c', w2) \<Rightarrow> (True, client_release c' w2)))"

definition handleHealthCheck :: "request \<Rightarrow> world \<Rightarrow> response \<times> world" where
  "handleHealthCheck req w =
     (let (dbHealthy, w1) = handleHealthCheck_try w;
          healthData =
            [(''status'', JString (if dbHealthy then ''healthy'' else ''unhealthy'')),
             (''server_hostname'', JString (SERVER_HOSTNAME w1)),
             (''timestamp'', JIsoDate (clock w1)),
             (''database'', JString (if dbHealthy then ''connected'' else ''disconnected''))]
      in (\<lparr>statusCode = (if dbHealthy then 200 else 503),
           headers =
             [(''Content-Type'', ''application/json''),
              (''Access-Control-Allow-Origin'', ''*'')],
           body = Some healthData\<rparr>, w1))"

text \<open>The startup check: the same three steps, the \<open>catch\<close> block only logs.\<close>

definition checkDatabaseConnection :: "world \<Rightarrow> bool \<times> world" where
  "checkDatabaseConnection w =
     (case dbPool_connect w of
        (Inl e, w1) \<Rightarrow> (False, w1)
      | (Inr c, w1) \<Rightarrow>
          (case client_query SELECT1 c w1 of
             (Inl e, w2) \<Rightarrow> (False, w2)
           | (Inr c', w2) \<Rightarrow> (True, client_release c' w2)))"

definition handleOptions :: response where
  "handleOptions =
     \<lparr>statusCode = 200,
      headers =
        [(''Access-Control-Allow-Origin'', ''*''),
         (''Access-Control-Allow-Methods'', ''GET, POST, OPTIONS''),
         (''Access-Control-Allow-Headers'', ''Content-Type'')],
      body = None\<rparr>"

text \<open>
  The callback of \<open>http.createServer\<close>. Its \<open>catch\<close> answers 500; of the statements in
  its \<open>try\<close> only the \<open>URL\<close> constructor throws in this model.
\<close>

definition server :: "request \<Rightarrow> world \<Rightarrow> response \<times> world" where
  "server req w =
     (case url_pathname req of
        Inl err \<Rightarrow>
          (\<lparr>statusCode = 500,
            headers = [(''Content-Type'', ''application/json'')],
            body = Some
              ((''error'', JString ''Internal server error'') #
               (case message err of None \<Rightarrow> [] | Some m \<Rightarrow> [(''message'', JString m)]))\<rparr>, w)
      | Inr path \<Rightarrow>
          (if req_method req = ''OPTIONS'' then (handleOptions, w)
           else if path = ''/health'' \<and> req_method req = ''GET'' then handleHealthCheck req w
           else if (path = ''/'' \<or> path = ''/api/request'') \<and>
                   (req_method req = ''GET'' \<or> req_method req = ''POST'')
             then handleRequest req w
           else (\<lparr>statusCode = 404,
                  headers = [(''Content-Type'', ''application/json'')],
                  body = Some [(''error'', JString ''Not found'')]\<rparr>, w)))"

section \<open>Shutdown\<close>

text \<open>
  What the \<open>SIGTERM\<close> handler meets: whether the HTTP server accepts connections, the
  request handlers in flight (each either holds a client of the pool or holds none: it
  sleeps a backoff delay, or has not connected yet, or has released its client and not
  yet answered), whether the pool has been ended, whether the process has exited.
\<close>

datatype handler_state = HoldsClient | HoldsNoClient

record process =
  accepting :: bool
  in_flight :: "handler_state list"
  pool_ended :: bool
  exited :: bool

text \<open>
  \<open>server.close(callback)\<close> stops the server from accepting connections and returns at
  once; the callback, which only logs, runs when the last connection has ended.
\<close>

definition server_close :: "process \<Rightarrow> process" where
  "server_close p = p\<lparr>accepting := False\<rparr>"

text \<open>
  \<open>await dbPool.end()\<close>: the pool closes its idle clients and resolves once no client is
  checked out (\<open>None\<close>: it has not resolved yet, a handler still holds a client).
\<close>

definition dbPool_end :: "process \<Rightarrow> process option" where
  "dbPool_end p =
     (if HoldsClient \<in> set (in_flight p) then None else Some (p\<lparr>pool_ended := True\<rparr>))"

definition process_exit :: "process \<Rightarrow> process" where
  "process_exit p = p\<lparr>exited := True\<rparr>"

text \<open>
  The handler of \<open>SIGTERM\<close>: \<open>server.close(...)\<close>, \<open>await dbPool.end()\<close>,
  \<open>process.exit(0)\<close>; \<open>None\<close> while it waits at the \<open>await\<close>.
\<close>

definition on_SIGTERM :: "process \<Rightarrow> process option" where
  "on_SIGTERM p =
     (case dbPool_end (server_close p) of
        None \<Rightarrow> None
      | Some p' \<Rightarrow> Some (process_exit p'))"

section \<open>Reading a trace, and sample inputs\<close>

text \<open>The gateway calls of a trace, with their arguments, and the delays slept.\<close>

fun calls :: "event list \<Rightarrow> log_row list" where
  "calls [] = []"
| "calls (Call r # es) = r # calls es"
| "calls (ev # es) = calls es"

fun sleeps :: "event list \<Rightarrow> nat list" where
  "sleeps [] = []"
| "sleeps (Sleep d # es) = d # sleeps es"
| "sleeps (ev # es) = sleeps es"

text \<open>The attempts of a trace: one \<open>dbPool.connect()\<close> each.\<close>

fun attempts :: "event list \<Rightarrow> nat" where
  "attempts [] = 0"
| "attempts (Connect out # es) = Suc (attempts es)"
| "attempts (ev # es) = attempts es"

text \<open>What no pool or store operation touches: the random source and the host name.\<close>

definition same_process :: "world \<Rightarrow> world \<Rightarrow> bool" where
  "same_process w w' =
     (uuid_source w' = uuid_source w \<and> uuid_drawn w' = uuid_drawn w \<and>
      SERVER_HOSTNAME w' = SERVER_HOSTNAME w)"

text \<open>
  What every run of the gateway for the row \<open>r\<close> guarantees, from \<open>w\<close> to the result
  \<open>res\<close> in \<open>w'\<close>: it makes the gateway calls \<open>cs\<close>, gives back every client it took,
  the store gains the row on success and nothing otherwise, and a failure carries a
  non-empty \<open>error\<close>.
\<close>

definition gateway_post :: "log_row \<Rightarrow> log_row list \<Rightarrow> world \<Rightarrow> db_result \<Rightarrow> world \<Rightarrow> bool" where
  "gateway_post r cs w res w' =
     (same_process w w' \<and> calls (trace w') = calls (trace w) @ cs \<and>
      in_use w' = in_use w \<and> clock w \<le> clock w' \<and>
      committed w' = committed w @ (if success res then [r] else []) \<and>
      (if success res then error res = None else truthy (error res)))"

text \<open>The headers of the answer of \<open>handleRequest\<close>, and the value of its \<open>clientIp\<close>.\<close>

definition log_headers :: "(string \<times> string) list" where
  "log_headers =
     [(''Content-Type'', ''application/json''),
      (''Access-Control-Allow-Origin'', ''*''),
      (''Access-Control-Allow-Methods'', ''GET, POST, OPTIONS''),
      (''Access-Control-Allow-Headers'', ''Content-Type'')]"

definition clientIp_of :: "request \<Rightarrow> string" where
  "clientIp_of req = or_else (x_forwarded_for req) (or_else (remoteAddress req) ''unknown'')"

text \<open>
  Whether the store answers the probe under a fault schedule: both \<open>dbPool.connect()\<close>
  and \<open>SELECT 1\<close> resolve.
\<close>

fun probe_answers :: "js_error option list \<Rightarrow> bool" where
  "probe_answers (Some e # rest) = False"
| "probe_answers (None # Some e # rest) = False"
| "probe_answers sc = True"

text \<open>
  What the probe does to the outside under a fault schedule, what it leaves of the
  schedule, and how many clients it leaves checked out: a connect that throws ends the
  probe; after a connect that resolves comes \<open>SELECT 1\<close>; only a \<open>SELECT 1\<close> that
  resolves is followed by the release.
\<close>

fun probe_events :: "js_error option list \<Rightarrow> event list" where
  "probe_events (Some e # rest) = [Connect (Some e)]"
| "probe_events (None # Some e # rest) = [Connect None, Query SELECT1 (Some e)]"
| "probe_events sc = [Connect None, Query SELECT1 None, Release]"

fun probe_rest :: "js_error option list \<Rightarrow> js_error option list" where
  "probe_rest (Some e # rest) = rest"
| "probe_rest (None # Some e # rest) = rest"
| "probe_rest sc = drop 2 sc"

fun probe_held :: "js_error option list \<Rightarrow> nat" where
  "probe_held (Some e # rest) = 0"
| "probe_held (None # Some e # rest) = 1"
| "probe_held sc = 0"

text \<open>
  Where the \<open>try\<close> block of an attempt throws. \<open>fails_at st e rb\<close> is the fault
  schedule of an attempt that throws \<open>e\<close> at the stage \<open>st\<close> and whose \<open>ROLLBACK\<close> then
  has the outcome \<open>rb\<close> (a failed connect leaves no client, so nothing to roll back);
  \<open>failed_events r st e rb\<close> is what the attempt does to the outside.
\<close>

datatype stage = AtConnect | AtBegin | AtInsert | AtCommit

fun fails_at :: "stage \<Rightarrow> js_error \<Rightarrow> js_error option \<Rightarrow> js_error option list" where
  "fails_at AtConnect e rb = [Some e]"
| "fails_at AtBegin e rb = [None, Some e, rb]"
| "fails_at AtInsert e rb = [None, None, Some e, rb]"
| "fails_at AtCommit e rb = [None, None, None, Some e, rb]"

fun failed_events :: "log_row \<Rightarrow> stage \<Rightarrow> js_error \<Rightarrow> js_error option \<Rightarrow> event list" where
  "failed_events r AtConnect e rb = [Connect (Some e)]"
| "failed_events r AtBegin e rb =
     [Connect None, Query BEGIN (Some e), Query ROLLBACK rb, Release]"
| "failed_events r AtInsert e rb =
     [Connect None, Query BEGIN None, Query (INSERT r) (Some e), Query ROLLBACK rb, Release]"
| "failed_events r AtCommit e rb =
     [Connect None, Query BEGIN None, Query (INSERT r) None, Query COMMIT (Some e),
      Query ROLLBACK rb, Release]"

text \<open>
  An attempt gets as far as \<open>COMMIT\<close> only if the store takes the row: its \<open>request_id\<close>
  is not in the store yet.
\<close>

definition reachable :: "stage \<Rightarrow> log_row \<Rightarrow> world \<Rightarrow> bool" where
  "reachable st r w =
     (if st = AtCommit then request_id r \<notin> set (map request_id (committed w)) else True)"

text \<open>A code of the transient set, as \<open>isTransientError\<close> reads it.\<close>

definition transient_code :: "string option \<Rightarrow> bool" where
  "transient_code c = isTransientError \<lparr>code = c, message = None\<rparr>"

text \<open>What a committing attempt does to the outside.\<close>

definition committed_events :: "log_row \<Rightarrow> event list" where
  "committed_events r =
     [Connect None, Query BEGIN None, Query (INSERT r) None, Query COMMIT None, Release]"

definition conn_reset :: js_error where
  "conn_reset = \<lparr>code = Some ''ECONNRESET'', message = Some ''read ECONNRESET''\<rparr>"

definition admin_shutdown :: js_error where
  "admin_shutdown =
     \<lparr>code = Some ''57P01'',
      message = Some ''terminating connection due to administrator command''\<rparr>"

definition conn_refused :: js_error where
  "conn_refused =
     \<lparr>code = Some ''ECONNREFUSED'', message = Some ''connect ECONNREFUSED 10.0.1.5:5432''\<rparr>"

definition syntax_error :: js_error where
  "syntax_error = \<lparr>code = Some ''42601'', message = Some ''syntax error at or near INTO''\<rparr>"

definition uuid_a :: string where
  "uuid_a = ''0b0e7a52-4c1f-4d7e-9a63-1f2d3c4b5a69''"

definition uuid_b :: string where
  "uuid_b = ''7c9e6679-7425-40de-944b-e07fc1f90ae7''"

text \<open>A world with the fault schedule \<open>sc\<close>, an empty store and the random source \<open>src\<close>.\<close>

definition sample_world :: "js_error option list \<Rightarrow> (nat \<Rightarrow> string) \<Rightarrow> world" where
  "sample_world sc src =
     \<lparr>script = sc, committed = [], in_use = 0, clock = 1000, uuid_source = src,
      uuid_drawn = 0, trace = [], SERVER_HOSTNAME = ''ip-172-31-45-123''\<rparr>"

definition two_uuids :: "nat \<Rightarrow> string" where
  "two_uuids n = (if n = 0 then uuid_a else uuid_b)"

definition post_request :: request where
  "post_request =
     \<lparr>req_method = ''POST'', url_pathname = Inr ''/api/request'',
      x_forwarded_for = Some ''203.0.113.9'', remoteAddress = Some ''10.0.0.7''\<rparr>"

definition health_request :: request where
  "health_request =
     \<lparr>req_method = ''GET'', url_pathname = Inr ''/health'',
      x_forwarded_for = None, remoteAddress = Some ''10.0.0.7''\<rparr>"

text \<open>
  The client address as the handler settles it: the forwarding header when it is there
  and not empty, else the remote address when it is there and not empty, else
  \<open>unknown\<close>.
\<close>

fun client_address :: "string option \<Rightarrow> string option \<Rightarrow> string" where
  "client_address (Some (c # cs)) remote = c # cs"
| "client_address forwarded (Some (c # cs)) = c # cs"
| "client_address forwarded remote = ''unknown''"

text \<open>
  The row of the first gateway call of \<open>handleRequest\<close>, and the error the \<open>try\<close> block
  of that call's first attempt throws (\<open>None\<close>: it commits).
\<close>

definition first_row :: "request \<Rightarrow> world \<Rightarrow> log_row" where
  "first_row req w =
     insert_params (uuid_source w (uuid_drawn w)) (SERVER_HOSTNAME w) (clock w) (clientIp_of req)"

definition first_attempt_error :: "request \<Rightarrow> world \<Rightarrow> js_error option" where
  "first_attempt_error req w =
     fst (fst (attempt_try (first_row req w)
       (emit (Call (first_row req w)) (snd (generateRequestId w)))))"

text \<open>A random source that returns the same value at every call.\<close>

definition stuck_source :: "nat \<Rightarrow> string" where
  "stuck_source n = uuid_a"

text \<open>A world without injected faults whose store already holds a row under \<open>uuid_a\<close>.\<close>

definition taken_world :: "(nat \<Rightarrow> string) \<Rightarrow> world" where
  "taken_world src =
     (sample_world [] src)
       \<lparr>committed := [insert_params uuid_a ''ip-172-31-7-20'' 400 ''198.51.100.4'']\<rparr>"

definition empty_header_request :: request where
  "empty_header_request =
     \<lparr>req_method = ''GET'', url_pathname = Inr ''/'',
      x_forwarded_for = Some '''', remoteAddress = Some ''10.0.0.7''\<rparr>"

section \<open>One attempt, step by step\<close>

lemmas op_defs = next_outcome_def emit_def dbPool_connect_def client_query_def
  client_release_def sleep_def

lemma calls_append [simp]: "calls (xs @ ys) = calls xs @ calls ys"
  by (induction xs rule: calls.induct) simp_all

lemma sleeps_append [simp]: "sleeps (xs @ ys) = sleeps xs @ sleeps ys"
  by (induction xs rule: sleeps.induct) simp_all

lemma attempts_append [simp]: "attempts (xs @ ys) = attempts xs + attempts ys"
  by (induction xs rule: attempts.induct) simp_all

lemma failed_events_read [simp]:
  "calls (failed_events r st e rb) = []"
  "sleeps (failed_events r st e rb) = []"
  "attempts (failed_events r st e rb) = 1"
  by (cases st; simp)+

lemma committed_events_read [simp]:
  "calls (committed_events r) = []"
  "sleeps (committed_events r) = []"
  "attempts (committed_events r) = 1"
  by (simp_all add: committed_events_def)

lemma or_else_nonempty: "d \<noteq> [] \<Longrightarrow> or_else c d \<noteq> []"
  by (cases c) auto

lemma attempt_cleanup_client:
  assumes "script w = rb # rest"
  shows "attempt_cleanup (Some c) w =
     w\<lparr>script := rest, in_use := in_use w - 1,
       trace := trace w @ [Query ROLLBACK rb, Release]\<rparr>"
  using assms by (cases rb) (simp_all add: attempt_cleanup_def op_defs)

lemma attempt_try_succeeds:
  assumes "script w = None # None # None # None # rest"
    and "request_id r \<notin> set (map request_id (committed w))"
  shows "attempt_try r w =
    ((None, Some \<lparr>pending = []\<rparr>),
     w\<lparr>script := rest, committed := committed w @ [r],
       trace := trace w @ committed_events r\<rparr>)"
  using assms by (simp add: attempt_try_def op_defs committed_events_def)

lemma reachable_frame [simp]:
  "reachable st r (w\<lparr>trace := t\<rparr>) = reachable st r w"
  "reachable st r (w\<lparr>script := sc\<rparr>) = reachable st r w"
  "reachable st r (w\<lparr>clock := c\<rparr>) = reachable st r w"
  by (simp_all add: reachable_def)

lemma reachable_fresh:
  "request_id r \<notin> set (map request_id (committed w)) \<Longrightarrow> reachable st r w"
  by (simp add: reachable_def)

text \<open>A failed attempt with its cleanup: the error it throws and the world it leaves.\<close>

lemma failed_attempt:
  assumes "script w = fails_at st e rb @ rest" and "reachable st r w"
  shows "\<exists>cl w1. attempt_try r w = ((Some e, cl), w1) \<and>
     attempt_cleanup cl w1 = w\<lparr>script := rest, trace := trace w @ failed_events r st e rb\<rparr>"
proof (cases st)
  case AtConnect
  with assms show ?thesis
    by (simp add: attempt_try_def attempt_cleanup_def op_defs)
next
  case AtBegin
  with assms have "attempt_try r w = ((Some e, Some \<lparr>pending = []\<rparr>),
      w\<lparr>script := rb # rest, in_use := in_use w + 1,
        trace := trace w @ [Connect None, Query BEGIN (Some e)]\<rparr>)"
    by (simp add: attempt_try_def op_defs)
  with AtBegin show ?thesis
    by (simp add: attempt_cleanup_client)
next
  case AtInsert
  with assms have "attempt_try r w = ((Some e, Some \<lparr>pending = []\<rparr>),
      w\<lparr>script := rb # rest, in_use := in_use w + 1,
        trace := trace w @ [Connect None, Query BEGIN None, Query (INSERT r) (Some e)]\<rparr>)"
    by (simp add: attempt_try_def op_defs)
  with AtInsert show ?thesis
    by (simp add: attempt_cleanup_client)
next
  case AtCommit
  with assms have "attempt_try r w = ((Some e, Some \<lparr>pending = [r]\<rparr>),
      w\<lparr>script := rb # rest, in_use := in_use w + 1,
        trace := trace w @ [Connect None, Query BEGIN None, Query (INSERT r) None,
          Query COMMIT (Some e)]\<rparr>)"
    by (simp add: attempt_try_def op_defs reachable_def)
  with AtCommit show ?thesis
    by (simp add: attempt_cleanup_client)
qed

section \<open>The retry loop, branch by branch\<close>

lemma loop_success:
  "attempt < retries \<Longrightarrow> attempt_try r w = ((None, cl), w1) \<Longrightarrow>
   writeRequestToDatabase_loop r retries attempt w = (success_result, w1)"
  by (subst writeRequestToDatabase_loop.simps) simp

lemma loop_collision:
  "attempt < retries \<Longrightarrow> attempt_try r w = ((Some e, cl), w1) \<Longrightarrow> isDuplicateKey e \<Longrightarrow>
   writeRequestToDatabase_loop r retries attempt w = (collision_result, attempt_cleanup cl w1)"
  by (subst writeRequestToDatabase_loop.simps) simp

lemma loop_retry:
  "attempt < retries - 1 \<Longrightarrow> attempt_try r w = ((Some e, cl), w1) \<Longrightarrow>
   \<not> isDuplicateKey e \<Longrightarrow> isTransientError e \<Longrightarrow>
   writeRequestToDatabase_loop r retries attempt w =
     writeRequestToDatabase_loop r retries (attempt + 1)
       (sleep (backoff_delay attempt) (attempt_cleanup cl w1))"
  by (subst writeRequestToDatabase_loop.simps) (auto simp: Let_def)

lemma loop_give_up:
  "attempt < retries \<Longrightarrow> attempt_try r w = ((Some e, cl), w1) \<Longrightarrow>
   \<not> isDuplicateKey e \<Longrightarrow> \<not> (isTransientError e \<and> attempt < retries - 1) \<Longrightarrow>
   writeRequestToDatabase_loop r retries attempt w = (failure_result e, attempt_cleanup cl w1)"
  by (subst writeRequestToDatabase_loop.simps) (auto simp: Let_def)

lemma loop_permanent:
  assumes "script w = fails_at st e rb @ rest" and "reachable st r w"
    and "\<not> isDuplicateKey e" and "\<not> isTransientError e" and "attempt < retries"
  shows "writeRequestToDatabase_loop r retries attempt w =
     (failure_result e, w\<lparr>script := rest, trace := trace w @ failed_events r st e rb\<rparr>)"
proof -
  from failed_attempt [OF assms(1,2)] obtain cl w1 where
    "attempt_try r w = ((Some e, cl), w1)"
    "attempt_cleanup cl w1 = w\<lparr>script := rest, trace := trace w @ failed_events r st e rb\<rparr>"
    by blast
  with loop_give_up [OF assms(5) this(1) assms(3)] assms(4) show ?thesis
    by simp
qed

lemma loop_exhausted:
  assumes "script w = fails_at st e rb @ rest" and "reachable st r w"
    and "\<not> isDuplicateKey e" and "attempt < retries" and "\<not> attempt < retries - 1"
  shows "writeRequestToDatabase_loop r retries attempt w =
     (failure_result e, w\<lparr>script := rest, trace := trace w @ failed_events r st e rb\<rparr>)"
proof -
  from failed_attempt [OF assms(1,2)] obtain cl w1 where
    "attempt_try r w = ((Some e, cl), w1)"
    "attempt_cleanup cl w1 = w\<lparr>script := rest, trace := trace w @ failed_events r st e rb\<rparr>"
    by blast
  with loop_give_up [OF assms(4) this(1) assms(3)] assms(5) show ?thesis
    by simp
qed

lemma loop_transient:
  assumes "script w = fails_at st e rb @ rest" and "reachable st r w"
    and "\<not> isDuplicateKey e" and "isTransientError e" and "attempt < retries - 1"
  shows "writeRequestToDatabase_loop r retries attempt w =
     writeRequestToDatabase_loop r retries (attempt + 1)
       (w\<lparr>script := rest, clock := clock w + backoff_delay attempt,
        trace := trace w @ failed_events r st e rb @ [Sleep (backoff_delay attempt)]\<rparr>)"
proof -
  from failed_attempt [OF assms(1,2)] obtain cl w1 where
    "attempt_try r w = ((Some e, cl), w1)"
    "attempt_cleanup cl w1 = w\<lparr>script := rest, trace := trace w @ failed_events r st e rb\<rparr>"
    by blast
  with loop_retry [OF assms(5) this(1) assms(3,4)] show ?thesis
    by (simp add: sleep_def emit_def)
qed


lemma loop_commit:
  assumes "script w = None # None # None # None # rest"
    and "request_id r \<notin> set (map request_id (committed w))" and "attempt < retries"
  shows "writeRequestToDatabase_loop r retries attempt w =
     (success_result,
      w\<lparr>script := rest, committed := committed w @ [r],
       trace := trace w @ committed_events r\<rparr>)"
  using loop_success [OF assms(3) attempt_try_succeeds [OF assms(1,2)]] .

lemmas gateway_defs = writeRequestToDatabase_def writeRequestToDatabase_retries_def
  emit_def Let_def

lemma sample_errors:
  "isTransientError conn_reset" "\<not> isDuplicateKey conn_reset"
  "isTransientError admin_shutdown" "\<not> isDuplicateKey admin_shutdown"
  "isTransientError conn_refused" "\<not> isDuplicateKey conn_refused"
  "\<not> isTransientError syntax_error" "\<not> isDuplicateKey syntax_error"
  "\<not> isTransientError unique_violation" "isDuplicateKey unique_violation"
  by (simp_all add: isTransientError_def isDuplicateKey_def conn_reset_def admin_shutdown_def
      conn_refused_def syntax_error_def unique_violation_def)

section \<open>What every run of the gateway guarantees\<close>

lemma same_process_refl [simp]: "same_process w w"
  by (simp add: same_process_def)

lemma same_process_trans: "same_process a b \<Longrightarrow> same_process b c \<Longrightarrow> same_process a c"
  by (simp add: same_process_def)

lemma attempt_try_frame:
  assumes "attempt_try r w = ((oe, cl), w1)"
  shows "same_process w w1 \<and> calls (trace w1) = calls (trace w) \<and> clock w1 = clock w \<and>
     (case oe of
        None \<Rightarrow> committed w1 = committed w @ [r] \<and> in_use w1 = in_use w
      | Some e \<Rightarrow> committed w1 = committed w \<and>
          in_use w1 = (case cl of None \<Rightarrow> in_use w | Some c \<Rightarrow> in_use w + 1))"
  using assms
  by (auto simp: attempt_try_def op_defs same_process_def
      split: list.splits option.splits if_splits prod.splits sum.splits)

lemma attempt_cleanup_frame:
  "same_process w (attempt_cleanup cl w) \<and>
   calls (trace (attempt_cleanup cl w)) = calls (trace w) \<and>
   clock (attempt_cleanup cl w) = clock w \<and>
   committed (attempt_cleanup cl w) = committed w \<and>
   in_use (attempt_cleanup cl w) = (case cl of None \<Rightarrow> in_use w | Some c \<Rightarrow> in_use w - 1)"
  by (auto simp: attempt_cleanup_def op_defs same_process_def
      split: list.splits option.splits if_splits prod.splits sum.splits)

lemma sleep_frame:
  "same_process w (sleep d w) \<and> calls (trace (sleep d w)) = calls (trace w) \<and>
   clock (sleep d w) = clock w + d \<and>
   committed (sleep d w) = committed w \<and> in_use (sleep d w) = in_use w"
  by (simp add: sleep_def emit_def same_process_def)

lemma loop_post:
  "writeRequestToDatabase_loop r retries attempt w = (res, w') \<Longrightarrow> gateway_post r [] w res w'"
proof (induction r retries attempt w arbitrary: res w' rule: writeRequestToDatabase_loop.induct)
  case (1 r retries attempt w)
  show ?case
  proof (cases "attempt < retries")
    case False
    with "1.prems" show ?thesis
      by (subst (asm) writeRequestToDatabase_loop.simps)
         (auto simp: gateway_post_def max_retries_result_def)
  next
    case True
    obtain oe cl w1 where at: "attempt_try r w = ((oe, cl), w1)"
      by (metis surj_pair)
    note fr = attempt_try_frame [OF at]
    show ?thesis
    proof (cases oe)
      case None
      with True at "1.prems" fr show ?thesis
        by (auto simp: loop_success gateway_post_def success_result_def)
    next
      case (Some e)
      let ?w2 = "attempt_cleanup cl w1"
      have w2: "same_process w ?w2" "calls (trace ?w2) = calls (trace w)"
        "clock ?w2 = clock w" "committed ?w2 = committed w" "in_use ?w2 = in_use w"
        using fr Some attempt_cleanup_frame [of w1 cl]
        by (auto intro: same_process_trans split: option.splits)
      show ?thesis
      proof (cases "isDuplicateKey e")
        case True
        with \<open>attempt < retries\<close> at Some "1.prems" w2 show ?thesis
          by (auto simp: loop_collision gateway_post_def collision_result_def)
      next
        case nd: False
        show ?thesis
        proof (cases "isTransientError e \<and> attempt < retries - 1")
          case False
          with nd \<open>attempt < retries\<close> at Some "1.prems" w2 show ?thesis
            using loop_give_up [of attempt retries r w e cl w1]
            by (auto simp: gateway_post_def failure_result_def or_else_nonempty)
        next
          case tr: True
          let ?w3 = "sleep (backoff_delay attempt) ?w2"
          have eq: "writeRequestToDatabase_loop r retries (attempt + 1) ?w3 = (res, w')"
            using loop_retry [of attempt retries r w e cl w1] tr nd at Some "1.prems" by simp
          have ih: "gateway_post r [] ?w3 res w'"
            using "1.IH" [OF True at [symmetric] refl Some refl nd tr eq] .
          with w2 sleep_frame [of ?w2 "backoff_delay attempt"] show ?thesis
            by (auto simp: gateway_post_def intro: same_process_trans)
        qed
      qed
    qed
  qed
qed

lemma gateway_call_post:
  assumes "writeRequestToDatabase requestId host ts ip w = (res, w')"
  shows "gateway_post (insert_params requestId host ts ip)
     [insert_params requestId host ts ip] w res w'"
proof -
  let ?r = "insert_params requestId host ts ip"
  from assms have "writeRequestToDatabase_loop ?r 3 0 (emit (Call ?r) w) = (res, w')"
    by (simp add: writeRequestToDatabase_def writeRequestToDatabase_retries_def Let_def)
  from loop_post [OF this] show ?thesis
    by (simp add: gateway_post_def emit_def same_process_def)
qed

lemma handleRequest_once:
  assumes first: "writeRequestToDatabase (uuid_source w (uuid_drawn w)) (SERVER_HOSTNAME w)
      (clock w) (clientIp_of req) (w\<lparr>uuid_drawn := uuid_drawn w + 1\<rparr>) = (res, w2)"
    and nc: "success res \<or> error res \<noteq> Some ''UUID_COLLISION''"
  shows "handleRequest req w =
     (\<lparr>statusCode = 200, headers = log_headers,
       body = Some (responseData (uuid_source w (uuid_drawn w)) (SERVER_HOSTNAME w) (clock w)
         (clientIp_of req) res)\<rparr>, w2)"
proof -
  from gateway_call_post [OF first] have "SERVER_HOSTNAME w2 = SERVER_HOSTNAME w"
    by (simp add: gateway_post_def same_process_def)
  with first nc show ?thesis
    by (auto simp: handleRequest_def generateRequestId_def clientIp_of_def log_headers_def)
qed

lemma handleRequest_twice:
  assumes first: "writeRequestToDatabase (uuid_source w (uuid_drawn w)) (SERVER_HOSTNAME w)
      (clock w) (clientIp_of req) (w\<lparr>uuid_drawn := uuid_drawn w + 1\<rparr>) = (res, w2)"
    and c: "\<not> success res" "error res = Some ''UUID_COLLISION''"
    and second: "writeRequestToDatabase (uuid_source w (uuid_drawn w + 1)) (SERVER_HOSTNAME w)
      (clock w) (clientIp_of req) (w2\<lparr>uuid_drawn := uuid_drawn w + 2\<rparr>) = (res2, w3)"
  shows "handleRequest req w =
     (\<lparr>statusCode = 200, headers = log_headers,
       body = Some (responseData (uuid_source w (uuid_drawn w + 1)) (SERVER_HOSTNAME w) (clock w)
         (clientIp_of req) res2)\<rparr>, w3)"
proof -
  from gateway_call_post [OF first] have w2: "SERVER_HOSTNAME w2 = SERVER_HOSTNAME w"
    "uuid_source w2 = uuid_source w" "uuid_drawn w2 = uuid_drawn w + 1"
    by (simp_all add: gateway_post_def same_process_def)
  from gateway_call_post [OF second] w2 have "SERVER_HOSTNAME w3 = SERVER_HOSTNAME w"
    by (simp add: gateway_post_def same_process_def)
  with first c second w2 show ?thesis
    by (auto simp: handleRequest_def generateRequestId_def clientIp_of_def log_headers_def)
qed

lemma attempt_try_attempts:
  "attempts (trace (snd (attempt_try r w))) = attempts (trace w) + 1"
  by (auto simp: attempt_try_def op_defs
      split: list.splits option.splits if_splits prod.splits sum.splits)

lemma attempt_cleanup_attempts:
  "attempts (trace (attempt_cleanup cl w)) = attempts (trace w)"
  by (auto simp: attempt_cleanup_def op_defs
      split: list.splits option.splits if_splits prod.splits sum.splits)

lemma transient_code_failure:
  "transient_code (error (failure_result e)) \<Longrightarrow> isTransientError e"
  by (cases "code e") (auto simp: transient_code_def failure_result_def isTransientError_def
      split: if_splits)

lemma loop_transient_code:
  "writeRequestToDatabase_loop r retries attempt w = (res, w') \<Longrightarrow>
   transient_code (error res) \<Longrightarrow>
   attempt \<le> retries \<and> attempts (trace w') = attempts (trace w) + (retries - attempt)"
proof (induction r retries attempt w arbitrary: res w' rule: writeRequestToDatabase_loop.induct)
  case (1 r retries attempt w)
  show ?case
  proof (cases "attempt < retries")
    case False
    with "1.prems" show ?thesis
      by (subst (asm) writeRequestToDatabase_loop.simps)
         (auto simp: max_retries_result_def transient_code_def isTransientError_def)
  next
    case True
    obtain oe cl w1 where at: "attempt_try r w = ((oe, cl), w1)"
      by (metis surj_pair)
    have a1: "attempts (trace w1) = attempts (trace w) + 1"
      using attempt_try_attempts [of r w] at by simp
    show ?thesis
    proof (cases oe)
      case None
      with True at "1.prems" show ?thesis
        by (auto simp: loop_success success_result_def transient_code_def isTransientError_def)
    next
      case (Some e)
      let ?w2 = "attempt_cleanup cl w1"
      have a2: "attempts (trace ?w2) = attempts (trace w) + 1"
        using a1 by (simp add: attempt_cleanup_attempts)
      show ?thesis
      proof (cases "isDuplicateKey e")
        case True
        with \<open>attempt < retries\<close> at Some "1.prems" show ?thesis
          by (auto simp: loop_collision collision_result_def transient_code_def
              isTransientError_def)
      next
        case nd: False
        show ?thesis
        proof (cases "isTransientError e \<and> attempt < retries - 1")
          case False
          from loop_give_up [OF True _ nd False, of r w cl w1] at Some "1.prems"
          have res: "res = failure_result e" "w' = ?w2"
            by auto
          with "1.prems"(2) have "isTransientError e"
            by (simp add: transient_code_failure)
          with False True have "retries - attempt = 1"
            by auto
          with res a2 True show ?thesis
            by simp
        next
          case tr: True
          let ?w3 = "sleep (backoff_delay attempt) ?w2"
          have eq: "writeRequestToDatabase_loop r retries (attempt + 1) ?w3 = (res, w')"
            using loop_retry [of attempt retries r w e cl w1] tr nd at Some "1.prems" by simp
          have ih: "attempt + 1 \<le> retries \<and>
              attempts (trace w') = attempts (trace ?w3) + (retries - (attempt + 1))"
            using "1.IH" [OF True at [symmetric] refl Some refl nd tr eq "1.prems"(2)] .
          have "attempts (trace ?w3) = attempts (trace w) + 1"
            using a2 by (simp add: sleep_def emit_def)
          with ih True show ?thesis
            by simp
        qed
      qed
    qed
  qed
qed

lemma gateway_transient_code:
  assumes "transient_code (error (fst (writeRequestToDatabase requestId host ts ip w)))"
  shows "attempts (trace (snd (writeRequestToDatabase requestId host ts ip w))) =
     attempts (trace w) + 3"
proof -
  let ?r = "insert_params requestId host ts ip"
  obtain res w' where l: "writeRequestToDatabase_loop ?r 3 0 (emit (Call ?r) w) = (res, w')"
    by (metis surj_pair)
  then have g: "writeRequestToDatabase requestId host ts ip w = (res, w')"
    by (simp add: writeRequestToDatabase_def writeRequestToDatabase_retries_def Let_def)
  from loop_transient_code [OF l] assms g show ?thesis
    by (simp add: emit_def)
qed



lemma gateway_calls:
  "calls (trace (snd (writeRequestToDatabase requestId host ts ip w))) =
     calls (trace w) @ [insert_params requestId host ts ip] \<and>
   same_process w (snd (writeRequestToDatabase requestId host ts ip w))"
  using gateway_call_post [of requestId host ts ip w
      "fst (writeRequestToDatabase requestId host ts ip w)"
      "snd (writeRequestToDatabase requestId host ts ip w)"]
  by (simp add: gateway_post_def)

lemma responseData_shape:
  assumes "if success res then error res = None else truthy (error res)"
  shows "\<exists>msg. msg \<noteq> [] \<and> responseData rid h ts ip res =
     [(''request_id'', JString rid), (''server_hostname'', JString h),
      (''timestamp'', JIsoDate ts), (''client_ip'', JString ip),
      (''db_status'', JString (if success res then ''success'' else ''failed''))] @
     (if success res then [] else [(''db_error'', JString msg)])"
proof (cases "success res")
  case True
  with assms show ?thesis
    by (auto simp: responseData_def db_error_field_def)
next
  case False
  with assms obtain err where "error res = Some err" "err \<noteq> []"
    by (cases "error res") auto
  with False show ?thesis
    by (auto simp: responseData_def db_error_field_def or_else_nonempty
        intro!: exI [of _ "or_else (result_message res) err"])
qed

lemma server_log_write:
  assumes "url_pathname req = Inr path" and "path = ''/'' \<or> path = ''/api/request''"
    and "req_method req = ''GET'' \<or> req_method req = ''POST''"
  shows "server req w = handleRequest req w"
  using assms by (auto simp: server_def)

lemma sample_log_write:
  "handleRequest post_request (sample_world [None, None, None, None] two_uuids) =
     (\<lparr>statusCode = 200, headers = log_headers,
       body = Some
         [(''request_id'', JString uuid_a),
          (''server_hostname'', JString ''ip-172-31-45-123''),
          (''timestamp'', JIsoDate 1000),
          (''client_ip'', JString ''203.0.113.9''),
          (''db_status'', JString ''success'')]\<rparr>,
      sample_world [] two_uuids
       \<lparr>committed := [insert_params uuid_a ''ip-172-31-45-123'' 1000 ''203.0.113.9''],
        uuid_drawn := 1,
        trace := Call (insert_params uuid_a ''ip-172-31-45-123'' 1000 ''203.0.113.9'') #
          committed_events (insert_params uuid_a ''ip-172-31-45-123'' 1000 ''203.0.113.9'')\<rparr>)"
proof -
  let ?w = "sample_world [None, None, None, None] two_uuids"
  have first: "writeRequestToDatabase (uuid_source ?w (uuid_drawn ?w)) (SERVER_HOSTNAME ?w)
      (clock ?w) (clientIp_of post_request) (?w\<lparr>uuid_drawn := uuid_drawn ?w + 1\<rparr>) =
     (success_result,
      sample_world [] two_uuids
       \<lparr>committed := [insert_params uuid_a ''ip-172-31-45-123'' 1000 ''203.0.113.9''],
        uuid_drawn := 1,
        trace := Call (insert_params uuid_a ''ip-172-31-45-123'' 1000 ''203.0.113.9'') #
          committed_events (insert_params uuid_a ''ip-172-31-45-123'' 1000 ''203.0.113.9'')\<rparr>)"
    by (simp add: gateway_defs loop_commit sample_world_def two_uuids_def post_request_def
        clientIp_of_def insert_params_def)
  from handleRequest_once [OF first] show ?thesis
    by (simp add: success_result_def responseData_def db_error_field_def sample_world_def
        two_uuids_def post_request_def clientIp_of_def)
qed

lemma clientIp_of_eq: "clientIp_of req = client_address (x_forwarded_for req) (remoteAddress req)"
  by (cases "(x_forwarded_for req, remoteAddress req)" rule: client_address.cases)
     (simp_all add: clientIp_of_def)

lemma handleRequest_after_collision:
  assumes "first_attempt_error req w = Some e" and "isDuplicateKey e"
  shows "\<exists>res2.
     fst (handleRequest req w) =
       \<lparr>statusCode = 200, headers = log_headers,
        body = Some (responseData (uuid_source w (uuid_drawn w + 1)) (SERVER_HOSTNAME w)
          (clock w) (clientIp_of req) res2)\<rparr> \<and>
     calls (trace (snd (handleRequest req w))) =
       calls (trace w) @
         [first_row req w,
          insert_params (uuid_source w (uuid_drawn w + 1)) (SERVER_HOSTNAME w) (clock w)
            (clientIp_of req)]"
proof -
  let ?w1 = "w\<lparr>uuid_drawn := uuid_drawn w + 1\<rparr>"
  let ?id1 = "uuid_source w (uuid_drawn w)" and ?id2 = "uuid_source w (uuid_drawn w + 1)"
  let ?h = "SERVER_HOSTNAME w" and ?ts = "clock w" and ?ip = "clientIp_of req"
  let ?r1 = "first_row req w"
  obtain cl wa where at: "attempt_try ?r1 (emit (Call ?r1) ?w1) = ((Some e, cl), wa)"
    using assms(1) by (cases "attempt_try ?r1 (emit (Call ?r1) ?w1)")
      (auto simp: first_attempt_error_def generateRequestId_def)
  have "writeRequestToDatabase_loop ?r1 3 0 (emit (Call ?r1) ?w1) =
      (collision_result, attempt_cleanup cl wa)"
    using loop_collision [of 0 3, OF _ at assms(2)] by simp
  then have first: "writeRequestToDatabase ?id1 ?h ?ts ?ip ?w1 =
      (collision_result, attempt_cleanup cl wa)"
    by (simp add: writeRequestToDatabase_def writeRequestToDatabase_retries_def Let_def
        first_row_def)
  obtain res2 w3 where second: "writeRequestToDatabase ?id2 ?h ?ts ?ip
      ((attempt_cleanup cl wa)\<lparr>uuid_drawn := uuid_drawn w + 2\<rparr>) = (res2, w3)"
    by (metis surj_pair)
  have hr: "handleRequest req w =
     (\<lparr>statusCode = 200, headers = log_headers,
       body = Some (responseData ?id2 ?h ?ts ?ip res2)\<rparr>, w3)"
    using handleRequest_twice [OF first _ _ second] by (simp add: collision_result_def)
  from gateway_calls [of ?id1 ?h ?ts ?ip ?w1] first
  have "calls (trace (attempt_cleanup cl wa)) = calls (trace w) @ [?r1]"
    by (simp add: first_row_def)
  with gateway_calls [of ?id2 ?h ?ts ?ip "(attempt_cleanup cl wa)\<lparr>uuid_drawn := uuid_drawn w + 2\<rparr>"]
    second
  have "calls (trace w3) = calls (trace w) @ [?r1, insert_params ?id2 ?h ?ts ?ip]"
    by simp
  with hr show ?thesis
    by (intro exI [of _ res2]) simp
qed

lemma handleRequest_after_collision_draws:
  assumes "first_attempt_error req w = Some e" and "isDuplicateKey e"
  shows "uuid_drawn (snd (handleRequest req w)) = uuid_drawn w + 2"
proof -
  let ?w1 = "w\<lparr>uuid_drawn := uuid_drawn w + 1\<rparr>"
  let ?id1 = "uuid_source w (uuid_drawn w)" and ?id2 = "uuid_source w (uuid_drawn w + 1)"
  let ?h = "SERVER_HOSTNAME w" and ?ts = "clock w" and ?ip = "clientIp_of req"
  let ?r1 = "first_row req w"
  obtain cl wa where at: "attempt_try ?r1 (emit (Call ?r1) ?w1) = ((Some e, cl), wa)"
    using assms(1) by (cases "attempt_try ?r1 (emit (Call ?r1) ?w1)")
      (auto simp: first_attempt_error_def generateRequestId_def)
  have "writeRequestToDatabase_loop ?r1 3 0 (emit (Call ?r1) ?w1) =
      (collision_result, attempt_cleanup cl wa)"
    using loop_collision [of 0 3, OF _ at assms(2)] by simp
  then have first: "writeRequestToDatabase ?id1 ?h ?ts ?ip ?w1 =
      (collision_result, attempt_cleanup cl wa)"
    by (simp add: writeRequestToDatabase_def writeRequestToDatabase_retries_def Let_def
        first_row_def)
  obtain res2 w3 where second: "writeRequestToDatabase ?id2 ?h ?ts ?ip
      ((attempt_cleanup cl wa)\<lparr>uuid_drawn := uuid_drawn w + 2\<rparr>) = (res2, w3)"
    by (metis surj_pair)
  have hr: "snd (handleRequest req w) = w3"
    using handleRequest_twice [OF first _ _ second] by (simp add: collision_result_def)
  from gateway_calls [of ?id2 ?h ?ts ?ip "(attempt_cleanup cl wa)\<lparr>uuid_drawn := uuid_drawn w + 2\<rparr>"]
    second
  have "uuid_drawn w3 = uuid_drawn w + 2"
    by (simp add: same_process_def)
  with hr show ?thesis
    by simp
qed

lemma taken_first_attempt:
  "first_attempt_error post_request (taken_world src) =
     (if src 0 = uuid_a then Some unique_violation else None)"
  by (simp add: first_attempt_error_def first_row_def generateRequestId_def attempt_try_def
      op_defs taken_world_def sample_world_def insert_params_def)

lemma handleRequest_calls:
  "\<exists>rid res.
     fst (handleRequest req w) =
       \<lparr>statusCode = 200, headers = log_headers,
        body = Some (responseData rid (SERVER_HOSTNAME w) (clock w) (clientIp_of req) res)\<rparr> \<and>
     (calls (trace (snd (handleRequest req w))) = calls (trace w) @ [first_row req w] \<or>
      calls (trace (snd (handleRequest req w))) =
        calls (trace w) @
          [first_row req w,
           insert_params (uuid_source w (uuid_drawn w + 1)) (SERVER_HOSTNAME w) (clock w)
             (clientIp_of req)])"
proof -
  let ?w1 = "w\<lparr>uuid_drawn := uuid_drawn w + 1\<rparr>"
  let ?id1 = "uuid_source w (uuid_drawn w)" and ?id2 = "uuid_source w (uuid_drawn w + 1)"
  let ?h = "SERVER_HOSTNAME w" and ?ts = "clock w" and ?ip = "clientIp_of req"
  obtain res w2 where first: "writeRequestToDatabase ?id1 ?h ?ts ?ip ?w1 = (res, w2)"
    by (metis surj_pair)
  from gateway_calls [of ?id1 ?h ?ts ?ip ?w1] first
  have c1: "calls (trace w2) = calls (trace w) @ [first_row req w]"
    by (simp add: first_row_def)
  show ?thesis
  proof (cases "success res \<or> error res \<noteq> Some ''UUID_COLLISION''")
    case True
    from handleRequest_once [OF first True] c1 show ?thesis
      by (intro exI [of _ ?id1] exI [of _ res]) simp
  next
    case False
    then have c: "\<not> success res" "error res = Some ''UUID_COLLISION''"
      by auto
    obtain res2 w3 where second: "writeRequestToDatabase ?id2 ?h ?ts ?ip
        (w2\<lparr>uuid_drawn := uuid_drawn w + 2\<rparr>) = (res2, w3)"
      by (metis surj_pair)
    from gateway_calls [of ?id2 ?h ?ts ?ip "w2\<lparr>uuid_drawn := uuid_drawn w + 2\<rparr>"] second c1
    have "calls (trace w3) = calls (trace w) @ [first_row req w, insert_params ?id2 ?h ?ts ?ip]"
      by simp
    with handleRequest_twice [OF first c second] show ?thesis
      by (intro exI [of _ ?id2] exI [of _ res2]) simp
  qed
qed

lemma sample_empty_header:
  "handleRequest empty_header_request (sample_world [None, None, None, None] two_uuids) =
     (\<lparr>statusCode = 200, headers = log_headers,
       body = Some
         [(''request_id'', JString uuid_a),
          (''server_hostname'', JString ''ip-172-31-45-123''),
          (''timestamp'', JIsoDate 1000),
          (''client_ip'', JString ''10.0.0.7''),
          (''db_status'', JString ''success'')]\<rparr>,
      sample_world [] two_uuids
       \<lparr>committed := [insert_params uuid_a ''ip-172-31-45-123'' 1000 ''10.0.0.7''],
        uuid_drawn := 1,
        trace := Call (insert_params uuid_a ''ip-172-31-45-123'' 1000 ''10.0.0.7'') #
          committed_events (insert_params uuid_a ''ip-172-31-45-123'' 1000 ''10.0.0.7'')\<rparr>)"
proof -
  let ?w = "sample_world [None, None, None, None] two_uuids"
  have first: "writeRequestToDatabase (uuid_source ?w (uuid_drawn ?w)) (SERVER_HOSTNAME ?w)
      (clock ?w) (clientIp_of empty_header_request) (?w\<lparr>uuid_drawn := uuid_drawn ?w + 1\<rparr>) =
     (success_result,
      sample_world [] two_uuids
       \<lparr>committed := [insert_params uuid_a ''ip-172-31-45-123'' 1000 ''10.0.0.7''],
        uuid_drawn := 1,
        trace := Call (insert_params uuid_a ''ip-172-31-45-123'' 1000 ''10.0.0.7'') #
          committed_events (insert_params uuid_a ''ip-172-31-45-123'' 1000 ''10.0.0.7'')\<rparr>)"
    by (simp add: gateway_defs loop_commit sample_world_def two_uuids_def
        empty_header_request_def clientIp_of_def insert_params_def)
  from handleRequest_once [OF first] show ?thesis
    by (simp add: success_result_def responseData_def db_error_field_def sample_world_def
        two_uuids_def empty_header_request_def clientIp_of_def)
qed

section \<open>The gateway under injected faults\<close>

text \<open>
  C6. A call of \<open>writeRequestToDatabase\<close> whose insert (or any other step of the first
  attempt) fails with an error that is neither a duplicate key nor transient returns that
  failure at once: the result carries the error's code and message, the call has made
  exactly one attempt, it has slept no backoff delay, and the clock and the store are as
  before. The loop does the same at any attempt it still has: it returns, with no sleep
  and no further attempt.
\<close>

theorem permanent_error_not_retried:
  assumes "script w = fails_at st e rb @ rest"
    and "reachable st (insert_params requestId host ts ip) w"
    and "\<not> isDuplicateKey e" and "\<not> isTransientError e"
  shows "writeRequestToDatabase requestId host ts ip w =
       (failure_result e,
        w\<lparr>script := rest,
          trace := trace w @
            Call (insert_params requestId host ts ip) #
            failed_events (insert_params requestId host ts ip) st e rb\<rparr>) \<and>
     attempts (trace (snd (writeRequestToDatabase requestId host ts ip w))) =
       attempts (trace w) + 1 \<and>
     sleeps (trace (snd (writeRequestToDatabase requestId host ts ip w))) = sleeps (trace w) \<and>
     clock (snd (writeRequestToDatabase requestId host ts ip w)) = clock w \<and>
     committed (snd (writeRequestToDatabase requestId host ts ip w)) = committed w \<and>
     (attempt < retries \<longrightarrow>
        writeRequestToDatabase_loop (insert_params requestId host ts ip) retries attempt w =
          (failure_result e,
           w\<lparr>script := rest,
             trace := trace w @
               failed_events (insert_params requestId host ts ip) st e rb\<rparr>))"
proof -
  have call: "writeRequestToDatabase requestId host ts ip w =
       (failure_result e,
        w\<lparr>script := rest,
          trace := trace w @
            Call (insert_params requestId host ts ip) #
            failed_events (insert_params requestId host ts ip) st e rb\<rparr>)"
    using assms by (simp add: gateway_defs loop_permanent)
  show ?thesis
    unfolding call using assms by (simp add: loop_permanent)
qed

theorem permanent_error_not_retried_witness:
  "\<not> isDuplicateKey syntax_error \<and> \<not> isTransientError syntax_error \<and>
   writeRequestToDatabase uuid_a ''ip-172-31-45-123'' 1000 ''203.0.113.9''
      (sample_world [None, None, Some syntax_error, None] two_uuids) =
     (\<lparr>success = False, error = Some ''42601'',
       result_message = Some ''syntax error at or near INTO''\<rparr>,
      sample_world [] two_uuids
        \<lparr>trace :=
          [Call (insert_params uuid_a ''ip-172-31-45-123'' 1000 ''203.0.113.9''),
           Connect None, Query BEGIN None,
           Query (INSERT (insert_params uuid_a ''ip-172-31-45-123'' 1000 ''203.0.113.9''))
             (Some syntax_error),
           Query ROLLBACK None, Release]\<rparr>)"
proof -
  have sc: "script (sample_world [None, None, Some syntax_error, None] two_uuids) =
      fails_at AtInsert syntax_error None @ []"
    by (simp add: sample_world_def)
  have re: "reachable AtInsert (insert_params uuid_a ''ip-172-31-45-123'' 1000 ''203.0.113.9'')
      (sample_world [None, None, Some syntax_error, None] two_uuids)"
    by (simp add: reachable_def)
  note th = permanent_error_not_retried [OF sc re sample_errors(8) sample_errors(7),
      where attempt = 0 and retries = 3]
  from th sample_errors show ?thesis
    by (simp add: sample_world_def failure_result_def syntax_error_def)
qed

text \<open>
  C2. When the first two attempts of a call fail with transient errors and the third
  finds the store ready to take the row, the call returns success; every attempt runs
  the whole transaction again from \<open>dbPool.connect()\<close>; the delays slept are 100 ms after
  the first attempt and 200 ms after the second, the entries of the schedule
  100, 200, 400 for these attempts, so the clock has advanced by at least 100 + 200.
\<close>

theorem transient_twice_then_success:
  assumes "script w = fails_at st1 e1 rb1 @ fails_at st2 e2 rb2 @
      None # None # None # None # rest"
    and "isTransientError e1" and "\<not> isDuplicateKey e1"
    and "isTransientError e2" and "\<not> isDuplicateKey e2"
    and "requestId \<notin> set (map request_id (committed w))"
  shows "writeRequestToDatabase requestId host ts ip w =
       (success_result,
        w\<lparr>script := rest,
          committed := committed w @ [insert_params requestId host ts ip],
          clock := clock w + 100 + 200,
          trace := trace w @
            Call (insert_params requestId host ts ip) #
            failed_events (insert_params requestId host ts ip) st1 e1 rb1 @ [Sleep 100] @
            failed_events (insert_params requestId host ts ip) st2 e2 rb2 @ [Sleep 200] @
            committed_events (insert_params requestId host ts ip)\<rparr>) \<and>
     success (fst (writeRequestToDatabase requestId host ts ip w)) \<and>
     attempts (trace (snd (writeRequestToDatabase requestId host ts ip w))) =
       attempts (trace w) + 3 \<and>
     sleeps (trace (snd (writeRequestToDatabase requestId host ts ip w))) =
       sleeps (trace w) @ [100, 200] \<and>
     clock w + 100 + 200 \<le> clock (snd (writeRequestToDatabase requestId host ts ip w)) \<and>
     map backoff_delay [0, 1, 2] = [100, 200, 400]"
proof -
  have call: "writeRequestToDatabase requestId host ts ip w =
       (success_result,
        w\<lparr>script := rest,
          committed := committed w @ [insert_params requestId host ts ip],
          clock := clock w + 100 + 200,
          trace := trace w @
            Call (insert_params requestId host ts ip) #
            failed_events (insert_params requestId host ts ip) st1 e1 rb1 @ [Sleep 100] @
            failed_events (insert_params requestId host ts ip) st2 e2 rb2 @ [Sleep 200] @
            committed_events (insert_params requestId host ts ip)\<rparr>)"
    using assms
    by (simp add: gateway_defs loop_transient loop_commit backoff_delay_def backoffMs_def
        reachable_fresh insert_params_def)
  show ?thesis
    unfolding call by (simp add: success_result_def backoff_delay_def backoffMs_def)
qed

theorem transient_twice_then_success_witness:
  "isTransientError conn_reset \<and> \<not> isDuplicateKey conn_reset \<and>
   isTransientError admin_shutdown \<and> \<not> isDuplicateKey admin_shutdown \<and>
   writeRequestToDatabase uuid_a ''ip-172-31-45-123'' 1000 ''203.0.113.9''
      (sample_world [None, None, Some conn_reset, Some conn_reset,
         None, None, Some admin_shutdown, None, None, None, None, None] two_uuids) =
     (\<lparr>success = True, error = None, result_message = None\<rparr>,
      sample_world [] two_uuids
        \<lparr>committed := [insert_params uuid_a ''ip-172-31-45-123'' 1000 ''203.0.113.9''],
         clock := 1300,
         trace :=
          [Call (insert_params uuid_a ''ip-172-31-45-123'' 1000 ''203.0.113.9''),
           Connect None, Query BEGIN None,
           Query (INSERT (insert_params uuid_a ''ip-172-31-45-123'' 1000 ''203.0.113.9''))
             (Some conn_reset),
           Query ROLLBACK (Some conn_reset), Release, Sleep 100,
           Connect None, Query BEGIN None,
           Query (INSERT (insert_params uuid_a ''ip-172-31-45-123'' 1000 ''203.0.113.9''))
             (Some admin_shutdown),
           Query ROLLBACK None, Release, Sleep 200,
           Connect None, Query BEGIN None,
           Query (INSERT (insert_params uuid_a ''ip-172-31-45-123'' 1000 ''203.0.113.9'')) None,
           Query COMMIT None, Release]\<rparr>)"
proof -
  have sc: "script (sample_world [None, None, Some conn_reset, Some conn_reset,
         None, None, Some admin_shutdown, None, None, None, None, None] two_uuids) =
      fails_at AtInsert conn_reset (Some conn_reset) @ fails_at AtInsert admin_shutdown None @
      None # None # None # None # []"
    by (simp add: sample_world_def)
  have fresh: "uuid_a \<notin> set (map request_id (committed
      (sample_world [None, None, Some conn_reset, Some conn_reset,
         None, None, Some admin_shutdown, None, None, None, None, None] two_uuids)))"
    by (simp add: sample_world_def)
  note th = transient_twice_then_success [OF sc sample_errors(1) sample_errors(2)
      sample_errors(3) sample_errors(4) fresh,
      where host = "''ip-172-31-45-123''" and ts = 1000 and ip = "''203.0.113.9''"]
  from th sample_errors show ?thesis
    by (simp add: sample_world_def success_result_def committed_events_def)
qed

text \<open>
  C4. When all three attempts of a call fail with transient errors, the call returns the
  failure that carries the code and the message of the last of them. That result is
  none of the other outcomes: not success, not the collision outcome, not the result of
  any permanent error; and a result that carries a transient code is returned by no call
  that has made fewer than three attempts. Nothing is committed: every attempt that got
  a client ends with \<open>ROLLBACK\<close> and then release, and the store and the count of
  clients in use are as before the call. The delays slept are 100 ms and 200 ms; none
  follows the third attempt.
\<close>

theorem retries_exhausted_after_three:
  assumes "script w = fails_at st1 e1 rb1 @ fails_at st2 e2 rb2 @ fails_at st3 e3 rb3 @ rest"
    and "reachable st1 (insert_params requestId host ts ip) w"
    and "reachable st2 (insert_params requestId host ts ip) w"
    and "reachable st3 (insert_params requestId host ts ip) w"
    and "isTransientError e1" and "\<not> isDuplicateKey e1"
    and "isTransientError e2" and "\<not> isDuplicateKey e2"
    and "isTransientError e3" and "\<not> isDuplicateKey e3"
  shows "writeRequestToDatabase requestId host ts ip w =
       (\<lparr>success = False, error = code e3, result_message = message e3\<rparr>,
        w\<lparr>script := rest,
          clock := clock w + 100 + 200,
          trace := trace w @
            Call (insert_params requestId host ts ip) #
            failed_events (insert_params requestId host ts ip) st1 e1 rb1 @ [Sleep 100] @
            failed_events (insert_params requestId host ts ip) st2 e2 rb2 @ [Sleep 200] @
            failed_events (insert_params requestId host ts ip) st3 e3 rb3\<rparr>) \<and>
     committed (snd (writeRequestToDatabase requestId host ts ip w)) = committed w \<and>
     in_use (snd (writeRequestToDatabase requestId host ts ip w)) = in_use w \<and>
     attempts (trace (snd (writeRequestToDatabase requestId host ts ip w))) =
       attempts (trace w) + 3 \<and>
     sleeps (trace (snd (writeRequestToDatabase requestId host ts ip w))) =
       sleeps (trace w) @ [100, 200] \<and>
     fst (writeRequestToDatabase requestId host ts ip w) \<noteq> success_result \<and>
     fst (writeRequestToDatabase requestId host ts ip w) \<noteq> collision_result \<and>
     fst (writeRequestToDatabase requestId host ts ip w) \<noteq> max_retries_result \<and>
     (\<forall>e'. \<not> isTransientError e' \<longrightarrow>
         fst (writeRequestToDatabase requestId host ts ip w) \<noteq> failure_result e') \<and>
     transient_code (error (fst (writeRequestToDatabase requestId host ts ip w))) \<and>
     (\<forall>requestId' host' ts' ip' w'.
         transient_code (error (fst (writeRequestToDatabase requestId' host' ts' ip' w'))) \<longrightarrow>
         attempts (trace (snd (writeRequestToDatabase requestId' host' ts' ip' w'))) =
           attempts (trace w') + 3)"
proof -
  have tc: "transient_code (code e3)"
    using assms(9) by (simp add: transient_code_def isTransientError_def)
  have fr: "failure_result e3 = \<lparr>success = False, error = code e3, result_message = message e3\<rparr>"
    using assms(9) by (auto simp: failure_result_def isTransientError_def)
  have call: "writeRequestToDatabase requestId host ts ip w =
       (\<lparr>success = False, error = code e3, result_message = message e3\<rparr>,
        w\<lparr>script := rest,
          clock := clock w + 100 + 200,
          trace := trace w @
            Call (insert_params requestId host ts ip) #
            failed_events (insert_params requestId host ts ip) st1 e1 rb1 @ [Sleep 100] @
            failed_events (insert_params requestId host ts ip) st2 e2 rb2 @ [Sleep 200] @
            failed_events (insert_params requestId host ts ip) st3 e3 rb3\<rparr>)"
    using assms
    by (simp add: gateway_defs loop_transient loop_exhausted backoff_delay_def backoffMs_def fr)
  have d1: "\<lparr>success = False, error = code e3, result_message = message e3\<rparr> \<noteq> collision_result"
    using assms(9) by (auto simp: collision_result_def isTransientError_def)
  have d2: "\<lparr>success = False, error = code e3, result_message = message e3\<rparr> \<noteq> max_retries_result"
    using assms(9) by (auto simp: max_retries_result_def isTransientError_def)
  have d3: "\<lparr>success = False, error = code e3, result_message = message e3\<rparr> \<noteq> failure_result e'"
    if "\<not> isTransientError e'" for e'
  proof (cases "code e'")
    case None
    with assms(9) show ?thesis
      by (auto simp: failure_result_def isTransientError_def)
  next
    case (Some c)
    with assms(9) that show ?thesis
      by (auto simp: failure_result_def isTransientError_def split: if_splits)
  qed
  show ?thesis
    unfolding call using d1 d2 d3 tc by (simp add: success_result_def gateway_transient_code)
qed

theorem retries_exhausted_after_three_witness:
  "isTransientError conn_refused \<and> isTransientError conn_reset \<and>
   isTransientError admin_shutdown \<and>
   writeRequestToDatabase uuid_a ''ip-172-31-45-123'' 1000 ''203.0.113.9''
      (sample_world [Some conn_refused, None, None, Some conn_reset, Some conn_reset,
         None, None, None, Some admin_shutdown, None] two_uuids) =
     (\<lparr>success = False, error = Some ''57P01'',
       result_message = Some ''terminating connection due to administrator command''\<rparr>,
      sample_world [] two_uuids
        \<lparr>clock := 1300,
         trace :=
          [Call (insert_params uuid_a ''ip-172-31-45-123'' 1000 ''203.0.113.9''),
           Connect (Some conn_refused), Sleep 100,
           Connect None, Query BEGIN None,
           Query (INSERT (insert_params uuid_a ''ip-172-31-45-123'' 1000 ''203.0.113.9''))
             (Some conn_reset),
           Query ROLLBACK (Some conn_reset), Release, Sleep 200,
           Connect None, Query BEGIN None,
           Query (INSERT (insert_params uuid_a ''ip-172-31-45-123'' 1000 ''203.0.113.9'')) None,
           Query COMMIT (Some admin_shutdown),
           Query ROLLBACK None, Release]\<rparr>)"
proof -
  have sc: "script (sample_world [Some conn_refused, None, None, Some conn_reset,
         Some conn_reset, None, None, None, Some admin_shutdown, None] two_uuids) =
      fails_at AtConnect conn_refused None @ fails_at AtInsert conn_reset (Some conn_reset) @
      fails_at AtCommit admin_shutdown None @ []"
    by (simp add: sample_world_def)
  have re: "reachable st (insert_params uuid_a ''ip-172-31-45-123'' 1000 ''203.0.113.9'')
      (sample_world [Some conn_refused, None, None, Some conn_reset,
         Some conn_reset, None, None, None, Some admin_shutdown, None] two_uuids)" for st
    by (simp add: reachable_def sample_world_def)
  note th = retries_exhausted_after_three [OF sc re re re sample_errors(5) sample_errors(6)
      sample_errors(1) sample_errors(2) sample_errors(3) sample_errors(4)]
  from th sample_errors show ?thesis
    by (simp add: sample_world_def admin_shutdown_def)
qed



section \<open>The dispatcher\<close>

text \<open>
  C3. A \<open>GET\<close> or \<open>POST\<close> on \<open>/\<close> or \<open>/api/request\<close> is answered 200 whatever the
  write does. The body holds \<open>request_id\<close>, \<open>server_hostname\<close>, \<open>timestamp\<close>,
  \<open>client_ip\<close> and \<open>db_status\<close>; \<open>db_status\<close> is \<open>success\<close> exactly when the row with
  the returned identifier has been committed to the store and \<open>failed\<close> when the store is
  as before; \<open>db_error\<close>, a non-empty message, is there exactly when the write failed.
\<close>

theorem log_write_always_200:
  assumes "url_pathname req = Inr path" and "path = ''/'' \<or> path = ''/api/request''"
    and "req_method req = ''GET'' \<or> req_method req = ''POST''"
  shows "\<exists>rid ok msg.
     fst (server req w) =
       \<lparr>statusCode = 200, headers = log_headers,
        body = Some
          ([(''request_id'', JString rid),
            (''server_hostname'', JString (SERVER_HOSTNAME w)),
            (''timestamp'', JIsoDate (clock w)),
            (''client_ip'', JString (clientIp_of req)),
            (''db_status'', JString (if ok then ''success'' else ''failed''))] @
           (if ok then [] else [(''db_error'', JString msg)]))\<rparr> \<and>
     committed (snd (server req w)) =
       committed w @
       (if ok then [insert_params rid (SERVER_HOSTNAME w) (clock w) (clientIp_of req)]
        else []) \<and>
     (rid = uuid_source w (uuid_drawn w) \<or> rid = uuid_source w (uuid_drawn w + 1)) \<and>
     msg \<noteq> []"
proof -
  let ?w1 = "w\<lparr>uuid_drawn := uuid_drawn w + 1\<rparr>"
  let ?id1 = "uuid_source w (uuid_drawn w)" and ?id2 = "uuid_source w (uuid_drawn w + 1)"
  let ?h = "SERVER_HOSTNAME w" and ?ts = "clock w" and ?ip = "clientIp_of req"
  obtain res w2 where first: "writeRequestToDatabase ?id1 ?h ?ts ?ip ?w1 = (res, w2)"
    by (metis surj_pair)
  note p1 = gateway_call_post [OF first]
  show ?thesis
  proof (cases "success res \<or> error res \<noteq> Some ''UUID_COLLISION''")
    case True
    from p1 have sh: "if success res then error res = None else truthy (error res)"
      by (simp add: gateway_post_def)
    from responseData_shape [OF sh, of ?id1 ?h ?ts ?ip] obtain msg where
      msg: "msg \<noteq> []" "responseData ?id1 ?h ?ts ?ip res =
        [(''request_id'', JString ?id1), (''server_hostname'', JString ?h),
         (''timestamp'', JIsoDate ?ts), (''client_ip'', JString ?ip),
         (''db_status'', JString (if success res then ''success'' else ''failed''))] @
        (if success res then [] else [(''db_error'', JString msg)])"
      by blast
    have "committed w2 = committed w @ (if success res then [insert_params ?id1 ?h ?ts ?ip] else [])"
      using p1 by (simp add: gateway_post_def)
    with msg handleRequest_once [OF first True] server_log_write [OF assms, of w]
    show ?thesis
      by (intro exI [of _ ?id1] exI [of _ "success res"] exI [of _ msg]) simp
  next
    case False
    then have c: "\<not> success res" "error res = Some ''UUID_COLLISION''"
      by auto
    obtain res2 w3 where second: "writeRequestToDatabase ?id2 ?h ?ts ?ip
        (w2\<lparr>uuid_drawn := uuid_drawn w + 2\<rparr>) = (res2, w3)"
      by (metis surj_pair)
    note p2 = gateway_call_post [OF second]
    from p2 have sh: "if success res2 then error res2 = None else truthy (error res2)"
      by (simp add: gateway_post_def)
    from responseData_shape [OF sh, of ?id2 ?h ?ts ?ip] obtain msg where
      msg: "msg \<noteq> []" "responseData ?id2 ?h ?ts ?ip res2 =
        [(''request_id'', JString ?id2), (''server_hostname'', JString ?h),
         (''timestamp'', JIsoDate ?ts), (''client_ip'', JString ?ip),
         (''db_status'', JString (if success res2 then ''success'' else ''failed''))] @
        (if success res2 then [] else [(''db_error'', JString msg)])"
      by blast
    have "committed w3 = committed w @ (if success res2 then [insert_params ?id2 ?h ?ts ?ip] else [])"
      using p1 p2 c by (simp add: gateway_post_def)
    with msg handleRequest_twice [OF first c second] server_log_write [OF assms, of w]
    show ?thesis
      by (intro exI [of _ ?id2] exI [of _ "success res2"] exI [of _ msg]) simp
  qed
qed

theorem log_write_always_200_witness:
  "url_pathname post_request = Inr ''/api/request'' \<and> req_method post_request = ''POST'' \<and>
   statusCode (fst (server post_request (sample_world [None, None, None, None] two_uuids))) = 200 \<and>
   headers (fst (server post_request (sample_world [None, None, None, None] two_uuids))) =
     log_headers \<and>
   body (fst (server post_request (sample_world [None, None, None, None] two_uuids))) =
     Some
        [(''request_id'', JString uuid_a),
         (''server_hostname'', JString ''ip-172-31-45-123''),
         (''timestamp'', JIsoDate 1000),
         (''client_ip'', JString ''203.0.113.9''),
         (''db_status'', JString ''success'')] \<and>
   committed (snd (server post_request (sample_world [None, None, None, None] two_uuids))) =
     [insert_params uuid_a ''ip-172-31-45-123'' 1000 ''203.0.113.9'']"
proof -
  have p: "url_pathname post_request = Inr ''/api/request''"
    and m: "req_method post_request = ''GET'' \<or> req_method post_request = ''POST''"
    by (simp_all add: post_request_def)
  have pp: "''/api/request'' = ''/'' \<or> ''/api/request'' = ''/api/request''"
    by simp
  note th = log_write_always_200 [OF p pp m,
      of "sample_world [None, None, None, None] two_uuids"]
  from th have st:
    "statusCode (fst (server post_request (sample_world [None, None, None, None] two_uuids))) = 200"
    "headers (fst (server post_request (sample_world [None, None, None, None] two_uuids))) =
       log_headers"
    by (elim exE conjE, simp)+
  have ev: "server post_request (sample_world [None, None, None, None] two_uuids) =
      handleRequest post_request (sample_world [None, None, None, None] two_uuids)"
    by (simp add: server_def post_request_def)
  from st p show ?thesis
    by (simp add: ev sample_log_write) (simp add: post_request_def sample_world_def)
qed

text \<open>
  C5. \<open>GET /health\<close> runs the probe through the pool: \<open>dbPool.connect()\<close>, then
  \<open>SELECT 1\<close> on the client, then the release. It is answered 200 with
  \<open>database: connected\<close> when connect and query resolve, and 503 with
  \<open>database: disconnected\<close> when either throws. The handler always gives a response
  (the error is caught, nothing is thrown to the dispatcher), and the body always holds
  the status, the host name, a timestamp and the state of the database. The world after
  the request is the world before it but for the consumed schedule, the events of the
  probe, and the client a failed query leaves checked out; the store is not changed.
\<close>

theorem health_check_reports_database:
  assumes "url_pathname req = Inr ''/health''" and "req_method req = ''GET''"
  shows "fst (server req w) =
       \<lparr>statusCode = (if probe_answers (script w) then 200 else 503),
        headers =
          [(''Content-Type'', ''application/json''), (''Access-Control-Allow-Origin'', ''*'')],
        body = Some
          [(''status'', JString (if probe_answers (script w) then ''healthy'' else ''unhealthy'')),
           (''server_hostname'', JString (SERVER_HOSTNAME w)),
           (''timestamp'', JIsoDate (clock w)),
           (''database'',
              JString (if probe_answers (script w) then ''connected'' else ''disconnected''))]\<rparr> \<and>
     fst (handleHealthCheck_try w) = probe_answers (script w) \<and>
     committed (snd (server req w)) = committed w \<and>
     snd (server req w) =
       w\<lparr>script := probe_rest (script w),
         in_use := in_use w + probe_held (script w),
         trace := trace w @ probe_events (script w)\<rparr> \<and>
     snd (handleHealthCheck_try w) = snd (server req w) \<and>
     (if probe_answers (script w)
      then probe_events (script w) = [Connect None, Query SELECT1 None, Release] \<and>
           in_use (snd (server req w)) = in_use w
      else (\<exists>e. probe_events (script w) = [Connect (Some e)] \<or>
                probe_events (script w) = [Connect None, Query SELECT1 (Some e)]))"
proof -
  have sv: "server req w = handleHealthCheck req w"
    using assms by (simp add: server_def)
  show ?thesis
    unfolding sv
    by (cases "script w" rule: probe_answers.cases)
       (simp_all add: handleHealthCheck_def handleHealthCheck_try_def op_defs)
qed

theorem health_check_reports_database_witness:
  "url_pathname health_request = Inr ''/health'' \<and> req_method health_request = ''GET'' \<and>
   statusCode (fst (server health_request (sample_world [] two_uuids))) = 200 \<and>
   body (fst (server health_request (sample_world [] two_uuids))) =
     Some [(''status'', JString ''healthy''),
           (''server_hostname'', JString ''ip-172-31-45-123''),
           (''timestamp'', JIsoDate 1000),
           (''database'', JString ''connected'')] \<and>
   snd (server health_request (sample_world [] two_uuids)) =
     sample_world [] two_uuids\<lparr>trace := [Connect None, Query SELECT1 None, Release]\<rparr> \<and>
   statusCode (fst (server health_request (sample_world [Some conn_refused] two_uuids))) = 503 \<and>
   body (fst (server health_request (sample_world [Some conn_refused] two_uuids))) =
     Some [(''status'', JString ''unhealthy''),
           (''server_hostname'', JString ''ip-172-31-45-123''),
           (''timestamp'', JIsoDate 1000),
           (''database'', JString ''disconnected'')] \<and>
   snd (server health_request (sample_world [Some conn_refused] two_uuids)) =
     sample_world [] two_uuids\<lparr>trace := [Connect (Some conn_refused)]\<rparr>"
proof -
  have p: "url_pathname health_request = Inr ''/health''"
    and m: "req_method health_request = ''GET''"
    by (simp_all add: health_request_def)
  note up = health_check_reports_database [OF p m, of "sample_world [] two_uuids"]
  note down = health_check_reports_database [OF p m, of "sample_world [Some conn_refused] two_uuids"]
  from up down p m show ?thesis
    by (simp add: sample_world_def)
qed

section \<open>Identifier, client address and timestamp of a request\<close>

text \<open>
  C8 as the code has it. When the first attempt of the first write fails with a
  duplicate-key error, the handler makes exactly one more gateway call, whose identifier
  is the next value of \<open>generateRequestId\<close>, and answers with that identifier. The
  handler does not compare the two: the identifier of the second call differs from that
  of the first exactly when the random source returns a value different from the one
  before.
\<close>

theorem second_identifier_is_next_draw:
  assumes "first_attempt_error req w = Some e" and "isDuplicateKey e"
  shows "map request_id (drop (length (calls (trace w)))
         (calls (trace (snd (handleRequest req w))))) =
       [uuid_source w (uuid_drawn w), uuid_source w (uuid_drawn w + 1)] \<and>
     (\<exists>fields. body (fst (handleRequest req w)) =
        Some ((''request_id'', JString (uuid_source w (uuid_drawn w + 1))) # fields)) \<and>
     length (calls (trace (snd (handleRequest req w)))) = length (calls (trace w)) + 2 \<and>
     uuid_drawn (snd (handleRequest req w)) = uuid_drawn w + 2 \<and>
     (request_id (calls (trace (snd (handleRequest req w))) ! (length (calls (trace w)) + 1)) \<noteq>
      request_id (calls (trace (snd (handleRequest req w))) ! length (calls (trace w)))) =
     (uuid_source w (uuid_drawn w + 1) \<noteq> uuid_source w (uuid_drawn w))"
proof -
  from handleRequest_after_collision [OF assms] obtain res2 where
    r: "fst (handleRequest req w) =
       \<lparr>statusCode = 200, headers = log_headers,
        body = Some (responseData (uuid_source w (uuid_drawn w + 1)) (SERVER_HOSTNAME w)
          (clock w) (clientIp_of req) res2)\<rparr>"
    and c: "calls (trace (snd (handleRequest req w))) =
       calls (trace w) @
         [first_row req w,
          insert_params (uuid_source w (uuid_drawn w + 1)) (SERVER_HOSTNAME w) (clock w)
            (clientIp_of req)]"
    by blast
  note d = handleRequest_after_collision_draws [OF assms]
  show ?thesis
    unfolding r c d by (simp add: first_row_def insert_params_def responseData_def nth_append)
qed

theorem second_identifier_is_next_draw_witness:
  "first_attempt_error post_request (taken_world two_uuids) = Some unique_violation \<and>
   isDuplicateKey unique_violation \<and>
   map request_id (calls (trace (snd (handleRequest post_request (taken_world two_uuids))))) =
     [uuid_a, uuid_b] \<and>
   (\<exists>fields. body (fst (handleRequest post_request (taken_world two_uuids))) =
        Some ((''request_id'', JString uuid_b) # fields)) \<and>
   request_id (calls (trace (snd (handleRequest post_request (taken_world two_uuids)))) ! 1) \<noteq>
   request_id (calls (trace (snd (handleRequest post_request (taken_world two_uuids)))) ! 0)"
proof -
  have fa: "first_attempt_error post_request (taken_world two_uuids) = Some unique_violation"
    by (simp add: taken_first_attempt two_uuids_def)
  note th = second_identifier_is_next_draw [OF fa sample_errors(10)]
  from th fa sample_errors(10) show ?thesis
    by (simp add: taken_world_def sample_world_def two_uuids_def uuid_a_def uuid_b_def)
qed

text \<open>
  C8 as stated fails where the random source returns the value it returned before: the
  store holds \<open>uuid_a\<close>, the first insert violates the unique constraint, the handler
  draws again, gets \<open>uuid_a\<close> again and calls the gateway with it.
\<close>

theorem second_identifier_can_repeat:
  "first_attempt_error post_request (taken_world stuck_source) = Some unique_violation \<and>
   isDuplicateKey unique_violation \<and>
   map request_id
     (calls (trace (snd (handleRequest post_request (taken_world stuck_source))))) =
     [uuid_a, uuid_a] \<and>
   \<not> (request_id (calls (trace (snd (handleRequest post_request (taken_world stuck_source)))) ! 1)
      \<noteq> request_id
          (calls (trace (snd (handleRequest post_request (taken_world stuck_source)))) ! 0))"
proof -
  have fa: "first_attempt_error post_request (taken_world stuck_source) = Some unique_violation"
    by (simp add: taken_first_attempt stuck_source_def)
  from handleRequest_after_collision [OF fa sample_errors(10)]
  have "calls (trace (snd (handleRequest post_request (taken_world stuck_source)))) =
      [insert_params uuid_a ''ip-172-31-45-123'' 1000 ''203.0.113.9'',
       insert_params uuid_a ''ip-172-31-45-123'' 1000 ''203.0.113.9'']"
    by (auto simp: taken_world_def sample_world_def stuck_source_def first_row_def
        post_request_def clientIp_of_def)
  with fa sample_errors(10) show ?thesis
    by (simp add: insert_params_def)
qed

text \<open>
  C10 as the code has it. The client address is the value of \<open>x-forwarded-for\<close> when the
  header is there and not empty, else the remote address when it is defined and not
  empty, else the string \<open>unknown\<close>. That address and the clock read before the first
  write are what the response returns and what every gateway call of the request gets:
  the handler makes one call, or two that agree on host name, timestamp and client
  address and take their identifiers from two successive draws.
\<close>

theorem client_address_and_timestamp_fixed:
  "clientIp_of req = client_address (x_forwarded_for req) (remoteAddress req) \<and>
   (\<exists>rid res.
     fst (handleRequest req w) =
       \<lparr>statusCode = 200, headers = log_headers,
        body = Some (responseData rid (SERVER_HOSTNAME w) (clock w)
          (client_address (x_forwarded_for req) (remoteAddress req)) res)\<rparr>) \<and>
   (calls (trace (snd (handleRequest req w))) =
      calls (trace w) @
        [insert_params (uuid_source w (uuid_drawn w)) (SERVER_HOSTNAME w) (clock w)
           (client_address (x_forwarded_for req) (remoteAddress req))] \<or>
    calls (trace (snd (handleRequest req w))) =
      calls (trace w) @
        [insert_params (uuid_source w (uuid_drawn w)) (SERVER_HOSTNAME w) (clock w)
           (client_address (x_forwarded_for req) (remoteAddress req)),
         insert_params (uuid_source w (uuid_drawn w + 1)) (SERVER_HOSTNAME w) (clock w)
           (client_address (x_forwarded_for req) (remoteAddress req))])"
  using handleRequest_calls [of req w]
  unfolding first_row_def clientIp_of_eq
  by blast

theorem client_address_and_timestamp_fixed_witness:
  "clientIp_of post_request = ''203.0.113.9'' \<and>
   calls (trace (snd (handleRequest post_request
     (sample_world [None, None, Some unique_violation, None] two_uuids)))) =
     [insert_params uuid_a ''ip-172-31-45-123'' 1000 ''203.0.113.9'',
      insert_params uuid_b ''ip-172-31-45-123'' 1000 ''203.0.113.9'']"
proof -
  note th = client_address_and_timestamp_fixed [of post_request
      "sample_world [None, None, Some unique_violation, None] two_uuids"]
  have ip: "clientIp_of post_request = ''203.0.113.9''"
    using th by (simp add: post_request_def)
  have two: "length (calls (trace (snd (handleRequest post_request
     (sample_world [None, None, Some unique_violation, None] two_uuids))))) = 2"
  proof -
    have "first_attempt_error post_request
        (sample_world [None, None, Some unique_violation, None] two_uuids) =
        Some unique_violation"
      by (simp add: first_attempt_error_def first_row_def generateRequestId_def attempt_try_def
          op_defs sample_world_def)
    from handleRequest_after_collision [OF this sample_errors(10)] show ?thesis
      by (auto simp: sample_world_def)
  qed
  from th two ip show ?thesis
    by (auto simp: sample_world_def post_request_def two_uuids_def)
qed

text \<open>
  C10 as stated fails for a request whose \<open>x-forwarded-for\<close> header is there with an
  empty value: the address recorded and returned is the remote address, not the value
  of the header.
\<close>

theorem empty_forwarded_header_not_used:
  "x_forwarded_for empty_header_request = Some [] \<and>
   remoteAddress empty_header_request = Some ''10.0.0.7'' \<and>
   map client_ip (calls (trace (snd (server empty_header_request
     (sample_world [None, None, None, None] two_uuids))))) = [''10.0.0.7''] \<and>
   body (fst (server empty_header_request
     (sample_world [None, None, None, None] two_uuids))) =
     Some
       [(''request_id'', JString uuid_a),
        (''server_hostname'', JString ''ip-172-31-45-123''),
        (''timestamp'', JIsoDate 1000),
        (''client_ip'', JString ''10.0.0.7''),
        (''db_status'', JString ''success'')] \<and>
   \<not> (map client_ip (calls (trace (snd (server empty_header_request
     (sample_world [None, None, None, None] two_uuids))))) = [[]])"
proof -
  have ev: "server empty_header_request (sample_world [None, None, None, None] two_uuids) =
      handleRequest empty_header_request (sample_world [None, None, None, None] two_uuids)"
    by (simp add: server_def empty_header_request_def)
  show ?thesis
    unfolding ev sample_empty_header
    by (simp add: empty_header_request_def committed_events_def insert_params_def)
qed

section \<open>Clients of the pool, and shutdown\<close>

text \<open>
  C9, at the input where the code departs from it: the pool hands out a client and
  \<open>SELECT 1\<close> throws (here the server is shutting down). The empty \<open>catch\<close> of
  \<open>handleHealthCheck\<close>, and the logging one of \<open>checkDatabaseConnection\<close>, do not
  release the client: no \<open>Release\<close> follows and one more client stays checked out.
\<close>

theorem probe_leaks_client_when_query_fails:
  "in_use (sample_world [None, Some admin_shutdown] two_uuids) = 0 \<and>
   in_use (snd (handleHealthCheck health_request
     (sample_world [None, Some admin_shutdown] two_uuids))) = 1 \<and>
   trace (snd (handleHealthCheck health_request
     (sample_world [None, Some admin_shutdown] two_uuids))) =
     [Connect None, Query SELECT1 (Some admin_shutdown)] \<and>
   in_use (snd (checkDatabaseConnection
     (sample_world [None, Some admin_shutdown] two_uuids))) = 1 \<and>
   trace (snd (checkDatabaseConnection
     (sample_world [None, Some admin_shutdown] two_uuids))) =
     [Connect None, Query SELECT1 (Some admin_shutdown)]"
  by (simp add: handleHealthCheck_def handleHealthCheck_try_def checkDatabaseConnection_def
      op_defs sample_world_def)

text \<open>
  C7, at the input where the code departs from it: \<open>SIGTERM\<close> arrives while one request
  handler is in flight and holds no client (it sleeps a backoff delay). Nothing in the
  handler of \<open>SIGTERM\<close> waits for it: the pool ends and the process exits with the
  request handler still in flight.
\<close>

theorem sigterm_exits_with_handler_in_flight:
  "on_SIGTERM \<lparr>accepting = True, in_flight = [HoldsNoClient], pool_ended = False,
      exited = False\<rparr> =
     Some \<lparr>accepting = False, in_flight = [HoldsNoClient], pool_ended = True, exited = True\<rparr>"
  by (simp add: on_SIGTERM_def dbPool_end_def server_close_def process_exit_def)

end
